theory Spec2Isabelle
  imports Complex_Main "HOL-Library.Log_Nat" "HOL-Library.AList"
begin

section \<open>Data model\<close>

text \<open>
  The combustion engine of \<^verbatim>\<open>tespy/components/combustion/combustion_engine.py\<close>
  reads and writes connection objects. A connection carries the mass flow
  \<^verbatim>\<open>m.val_SI\<close>, the pressure \<^verbatim>\<open>p.val_SI\<close>, the enthalpy \<^verbatim>\<open>h.val_SI\<close>, the
  composition dictionary \<^verbatim>\<open>fluid.val\<close> with its flags \<^verbatim>\<open>fluid.val_set\<close>, the flag
  \<^verbatim>\<open>good_starting_values\<close> and the two components it joins. Python dictionaries keep
  their insertion order, so they are association lists here. Components are named by
  numbers. The record is polymorphic in the number type: the equations are studied over
  the reals, and the one scenario that asserts an exact floating-point result is run on
  binary64 numbers.
\<close>

type_synonym 'n fluid = "(string \<times> 'n) list"

record 'n connection =
  m_val_SI :: 'n
  p_val_SI :: 'n
  h_val_SI :: 'n
  fluid_val :: "'n fluid"
  fluid_val_set :: "(string \<times> bool) list"
  good_starting_values :: bool
  source :: nat
  target :: nat

section \<open>Binary64 numbers\<close>

text \<open>
  A Python float is an IEEE 754 binary64 number. A finite one is represented by the
  rational number it denotes; the sign of zero is not represented (Python compares
  \<^verbatim>\<open>-0.0 == 0.0\<close> as equal). \<open>round_f64\<close> is rounding to nearest, ties to even,
  with a 53 bit significand, gradual underflow below \<open>2 ^ -1022\<close> and overflow to
  infinity from \<open>2 ^ 1024\<close> on.
\<close>

datatype f64 = Finite rat | PosInf | NegInf | NaN

definition pow2 :: "int \<Rightarrow> rat" where
  "pow2 e = (if 0 \<le> e then 2 ^ nat e else 1 / 2 ^ nat (- e))"

definition ilog2 :: "rat \<Rightarrow> int" where
  "ilog2 x = (case quotient_of x of (a, b) \<Rightarrow>
     (let d = bitlen a - bitlen b in if pow2 d \<le> x then d else d - 1))"

definition round_half_even :: "rat \<Rightarrow> int" where
  "round_half_even r = (let f = \<lfloor>r\<rfloor>; d = r - of_int f in
     if d < 1 / 2 then f else if 1 / 2 < d then f + 1 else if even f then f else f + 1)"

definition round_f64 :: "rat \<Rightarrow> f64" where
  "round_f64 x = (if x = 0 then Finite 0 else
     (let e = max (ilog2 \<bar>x\<bar>) (- 1022);
          q = pow2 (e - 52);
          y = of_int (round_half_even (x / q)) * q
      in if 1024 \<le> ilog2 \<bar>y\<bar> then (if 0 < y then PosInf else NegInf) else Finite y))"

fun f64_neg :: "f64 \<Rightarrow> f64" where
  "f64_neg (Finite a) = Finite (- a)"
| "f64_neg PosInf = NegInf"
| "f64_neg NegInf = PosInf"
| "f64_neg NaN = NaN"

fun f64_add :: "f64 \<Rightarrow> f64 \<Rightarrow> f64" where
  "f64_add NaN y = NaN"
| "f64_add x NaN = NaN"
| "f64_add PosInf NegInf = NaN"
| "f64_add NegInf PosInf = NaN"
| "f64_add PosInf y = PosInf"
| "f64_add x PosInf = PosInf"
| "f64_add NegInf y = NegInf"
| "f64_add x NegInf = NegInf"
| "f64_add (Finite a) (Finite b) = round_f64 (a + b)"

instantiation f64 :: "{plus, minus, uminus}"
begin

definition uminus_f64 :: "f64 \<Rightarrow> f64" where
  "uminus_f64 x = f64_neg x"

definition plus_f64 :: "f64 \<Rightarrow> f64 \<Rightarrow> f64" where
  "plus_f64 x y = f64_add x y"

definition minus_f64 :: "f64 \<Rightarrow> f64 \<Rightarrow> f64" where
  "minus_f64 x y = f64_add x (f64_neg y)"

instance ..

end

text \<open>A decimal literal of the source denotes the binary64 number nearest to it.\<close>

definition py_float :: "rat \<Rightarrow> f64" where
  "py_float x = round_f64 x"

section \<open>Mass flow balance\<close>

text \<open>
  \<^verbatim>\<open>mass_flow_func\<close>: the residuals \<^verbatim>\<open>inl[i].m - outl[i].m\<close> for the two cooling
  loops, then \<^verbatim>\<open>inl[2].m + inl[3].m - outl[2].m\<close>. The lists \<^verbatim>\<open>self.inl\<close> and
  \<^verbatim>\<open>self.outl\<close> are the arguments. The network gives the engine the four inlets and
  three outlets of \<^verbatim>\<open>inlets()\<close> and \<^verbatim>\<open>outlets()\<close>; on shorter lists Python raises
  an IndexError, which the theorems exclude by their length hypotheses.
\<close>

definition mass_flow_func :: "('n::{plus,minus}) connection list \<Rightarrow> 'n connection list \<Rightarrow> 'n list" where
  "mass_flow_func inl outl =
     map (\<lambda>i. m_val_SI (inl ! i) - m_val_SI (outl ! i)) [0..<2] @
     [m_val_SI (inl ! 2) + m_val_SI (inl ! 3) - m_val_SI (outl ! 2)]"

text \<open>The scenario of the specification, with the literals read as Python reads them.\<close>

definition port :: "'n \<Rightarrow> 'n \<Rightarrow> 'n \<Rightarrow> 'n fluid \<Rightarrow> 'n connection" where
  "port mv pv hv fl = \<lparr>m_val_SI = mv, p_val_SI = pv, h_val_SI = hv, fluid_val = fl,
     fluid_val_set = map (\<lambda>(k, _). (k, False)) fl, good_starting_values = False,
     source = 0, target = 0\<rparr>"

definition scenario_inl :: "f64 connection list" where
  "scenario_inl = map (\<lambda>x. port (py_float x) (py_float 100000) (py_float 100000) [])
     [5, 3, 2 / 10, 1 / 10]"

definition scenario_outl :: "f64 connection list" where
  "scenario_outl = map (\<lambda>x. port (py_float x) (py_float 100000) (py_float 100000) [])
     [5, 3, 3 / 10]"

definition scenario_inl_exact :: "real connection list" where
  "scenario_inl_exact = map (\<lambda>x. port x 100000 100000 []) [5, 3, 2 / 10, 1 / 10]"

definition scenario_outl_exact :: "real connection list" where
  "scenario_outl_exact = map (\<lambda>x. port x 100000 100000 []) [5, 3, 3 / 10]"

section \<open>Errors\<close>

text \<open>
  Every exception of the source is a value: a function that may raise returns
  \<open>error + 'a\<close>, with \<open>Inl\<close> for the exception. \<open>bindE\<close> runs the rest of a function
  only when the first part has returned.
\<close>

datatype error =
    KeyError string
  | ValueError string
  | ZeroDivisionError
  | IndexError
  | RecursionError

definition bindE :: "error + 'a \<Rightarrow> ('a \<Rightarrow> error + 'b) \<Rightarrow> error + 'b" where
  "bindE r f = (case r of Inl e \<Rightarrow> Inl e | Inr x \<Rightarrow> f x)"

text \<open>A \<^verbatim>\<open>for\<close> loop whose body may raise: the loop stops at the first exception.\<close>

fun foldE :: "('a \<Rightarrow> 's \<Rightarrow> error + 's) \<Rightarrow> 'a list \<Rightarrow> 's \<Rightarrow> error + 's" where
  "foldE f [] s = Inr s"
| "foldE f (x # xs) s = bindE (f x s) (foldE f xs)"

text \<open>\<^verbatim>\<open>d[k]\<close> on a dictionary raises a KeyError for a missing key.\<close>

definition getitem :: "(string \<times> 'a) list \<Rightarrow> string \<Rightarrow> error + 'a" where
  "getitem d k = (case map_of d k of None \<Rightarrow> Inl (KeyError k) | Some v \<Rightarrow> Inr v)"

text \<open>
  \<^verbatim>\<open>a / b\<close> on Python floats raises a ZeroDivisionError for \<^verbatim>\<open>b == 0\<close>. (With a numpy
  operand the result would be an infinity or a NaN instead; neither is a real number, so
  the model has no value there in both readings.)
\<close>

definition py_div :: "real \<Rightarrow> real \<Rightarrow> error + real" where
  "py_div a b = (if b = 0 then Inl ZeroDivisionError else Inr (a / b))"

section \<open>The combustion engine\<close>

text \<open>
  A component property (\<^verbatim>\<open>ComponentProperties\<close>, \<^verbatim>\<open>dc_cp\<close>): the value, the design
  value (\<open>None\<close> for the NaN of a property with no design value), the flags
  \<^verbatim>\<open>is_set\<close> and \<^verbatim>\<open>is_var\<close> and the position among the component's variables.
\<close>

record dc_cp =
  val :: real
  design :: "real option"
  is_set :: bool
  is_var :: bool
  var_pos :: nat

text \<open>An entry of \<^verbatim>\<open>self.fuels\<close>: the keys \<^verbatim>\<open>'C'\<close>, \<^verbatim>\<open>'H'\<close> and \<^verbatim>\<open>'LHV'\<close>.\<close>

record fuel =
  fuel_C :: real
  fuel_H :: real
  fuel_LHV :: real

text \<open>
  The three-dimensional numpy array of the Jacobian: its shape and its cells, by
  equation, by port or variable, and by network variable.
\<close>

record ndarray3 =
  shape :: "nat \<times> nat \<times> nat"
  cells :: "nat \<Rightarrow> nat \<Rightarrow> nat \<Rightarrow> real"

datatype log_level = INFO | ERROR

text \<open>
  The attributes of a \<^verbatim>\<open>CombustionEngine\<close> object that the methods below use.
  \<open>inl\<close> and \<open>outl\<close> hold the current state of the port connections. A characteristic
  line is its \<^verbatim>\<open>func.evaluate\<close>. \<open>logged\<close> collects the records that the methods
  send to \<^verbatim>\<open>logging\<close>.
\<close>

record engine =
  label :: string
  inl :: "real connection list"
  outl :: "real connection list"
  lamb :: dc_cp
  ti :: dc_cp
  P :: dc_cp
  Q1 :: dc_cp
  Q2 :: dc_cp
  Qloss :: dc_cp
  pr1 :: dc_cp
  pr2 :: dc_cp
  zeta1 :: dc_cp
  zeta2 :: dc_cp
  tiP_char :: "real \<Rightarrow> real"
  Q1_char :: "real \<Rightarrow> real"
  Q2_char :: "real \<Rightarrow> real"
  Qloss_char :: "real \<Rightarrow> real"
  nw_fluids :: "string list"
  num_nw_fluids :: nat
  num_nw_vars :: nat
  num_vars :: nat
  num_i :: nat
  num_o :: nat
  num_eq :: nat
  fuel_list :: "string list"
  fuels :: "(string \<times> fuel) list"
  co2 :: string
  h2o :: string
  n2 :: string
  o2 :: string
  it :: nat
  always_all_equations :: bool
  residual :: "real list"
  jacobian :: ndarray3
  logged :: "(log_level \<times> string) list"

text \<open>
  What a numeric derivative returns: a number for a derivative by the mass flow, the
  pressure, the enthalpy or a variable of the component, and a vector with one entry per
  fluid for the derivative by the composition.
\<close>

datatype ndval = Scalar real | Vector "real list"

text \<open>
  The methods of the base classes and the library functions that the file calls and that
  are defined elsewhere are parameters: the mixture enthalpy \<^verbatim>\<open>h_mix_pT(flow, T,
  force_gas)\<close> with the flow \<^verbatim>\<open>[m, p, h, fluid]\<close>; the residuals
  \<^verbatim>\<open>reaction_balance\<close>, \<^verbatim>\<open>lambda_func\<close>, \<^verbatim>\<open>ti_func\<close> and \<^verbatim>\<open>zeta_func\<close>; the bus
  value \<^verbatim>\<open>calc_bus_value\<close> of the entry of a bus; the derivatives
  \<^verbatim>\<open>numeric_deriv(func, dx, pos, **kwargs)\<close> and \<^verbatim>\<open>rb_numeric_deriv(dx, pos, fluid)\<close>,
  which are taken to return; and the dictionary \<^verbatim>\<open>molar_masses\<close> and the tolerance
  \<^verbatim>\<open>err\<close> of \<^verbatim>\<open>tespy.tools.global_vars\<close>.
\<close>

record base =
  h_mix_pT :: "real \<times> real \<times> real \<times> real fluid \<Rightarrow> real \<Rightarrow> bool \<Rightarrow> real"
  reaction_balance :: "engine \<Rightarrow> string \<Rightarrow> error + real"
  lambda_func :: "engine \<Rightarrow> error + real"
  ti_func :: "engine \<Rightarrow> error + real"
  zeta_func :: "engine \<Rightarrow> string \<Rightarrow> nat \<Rightarrow> nat \<Rightarrow> error + real"
  calc_bus_value :: "string \<Rightarrow> engine \<Rightarrow> error + real"
  numeric_deriv :: "(engine \<Rightarrow> error + real) \<Rightarrow> string \<Rightarrow> nat \<Rightarrow> engine \<Rightarrow> ndval"
  rb_numeric_deriv :: "string \<Rightarrow> nat \<Rightarrow> string \<Rightarrow> engine \<Rightarrow> ndval"
  molar_masses :: "(string \<times> real) list"
  err :: real

subsection \<open>Thermal input and energy balance\<close>

text \<open>
  \<^verbatim>\<open>calc_ti\<close>: for every fuel the mass flow \<^verbatim>\<open>m\<close> adds \<^verbatim>\<open>i.m * i.fluid.val[f]\<close>
  over \<^verbatim>\<open>self.inl[2:]\<close> and subtracts \<^verbatim>\<open>o.m * o.fluid.val[f]\<close> over
  \<^verbatim>\<open>self.outl[2:]\<close>; \<^verbatim>\<open>ti\<close> adds \<^verbatim>\<open>m * self.fuels[f]['LHV']\<close>.
\<close>

definition calc_ti :: "engine \<Rightarrow> error + real" where
  "calc_ti c =
     foldE (\<lambda>f ti.
        bindE (foldE (\<lambda>i m. bindE (getitem (fluid_val i) f) (\<lambda>x. Inr (m + m_val_SI i * x)))
                 (drop 2 (inl c)) 0) (\<lambda>m.
        bindE (foldE (\<lambda>out m. bindE (getitem (fluid_val out) f) (\<lambda>x. Inr (m - m_val_SI out * x)))
                 (drop 2 (outl c)) m) (\<lambda>m.
        bindE (getitem (fuels c) f) (\<lambda>fu.
        Inr (ti + m * fuel_LHV fu)))))
       (fuel_list c) 0"

definition T_ref :: real where
  "T_ref = 29815 / 100"

definition p_ref :: real where
  "p_ref = 100000"

text \<open>
  \<^verbatim>\<open>energy_balance\<close>: the loops over \<^verbatim>\<open>self.inl[2:]\<close> and \<^verbatim>\<open>self.outl[2:]\<close>, the
  thermal input, the loop over the two cooling loops, and \<^verbatim>\<open>P.val + Qloss.val\<close>.
\<close>

definition energy_balance :: "base \<Rightarrow> engine \<Rightarrow> error + real" where
  "energy_balance b c =
     (let res = fold (\<lambda>i res. res + m_val_SI i *
                   (h_val_SI i - h_mix_pT b (0, p_ref, 0, fluid_val i) T_ref True))
                 (drop 2 (inl c)) 0;
          res = fold (\<lambda>out res. res - m_val_SI out *
                   (h_val_SI out - h_mix_pT b (0, p_ref, 0, fluid_val out) T_ref True))
                 (drop 2 (outl c)) res
      in bindE (calc_ti c) (\<lambda>t.
           (let res = res + t;
                res = fold (\<lambda>i res. res - m_val_SI (inl c ! i) *
                         (h_val_SI (outl c ! i) - h_val_SI (inl c ! i))) [0..<2] res
            in Inr (res + (val (P c) + val (Qloss c))))))"

subsection \<open>Characteristic couplings\<close>

text \<open>
  The argument of the characteristic lines: \<^verbatim>\<open>1\<close> when \<^verbatim>\<open>np.isnan(self.P.design)\<close>,
  \<^verbatim>\<open>self.P.val / self.P.design\<close> otherwise. Each of the methods below starts with
  these lines.
\<close>

definition load_expr :: "engine \<Rightarrow> error + real" where
  "load_expr c = (case design (P c) of None \<Rightarrow> Inr 1 | Some d \<Rightarrow> py_div (val (P c)) d)"

definition tiP_char_func :: "engine \<Rightarrow> error + real" where
  "tiP_char_func c =
     bindE (load_expr c) (\<lambda>expr.
     bindE (calc_ti c) (\<lambda>t.
     Inr (t + tiP_char c expr * val (P c))))"

definition Q1_char_func :: "engine \<Rightarrow> error + real" where
  "Q1_char_func c =
     (let i = inl c ! 0; out = outl c ! 0 in
      bindE (load_expr c) (\<lambda>expr.
      bindE (calc_ti c) (\<lambda>t.
      Inr (t * Q1_char c expr -
           tiP_char c expr * m_val_SI i * (h_val_SI out - h_val_SI i)))))"

definition Q2_char_func :: "engine \<Rightarrow> error + real" where
  "Q2_char_func c =
     (let i = inl c ! 1; out = outl c ! 1 in
      bindE (load_expr c) (\<lambda>expr.
      bindE (calc_ti c) (\<lambda>t.
      Inr (t * Q2_char c expr -
           tiP_char c expr * m_val_SI i * (h_val_SI out - h_val_SI i)))))"

definition Qloss_char_func :: "engine \<Rightarrow> error + real" where
  "Qloss_char_func c =
     bindE (load_expr c) (\<lambda>expr.
     bindE (calc_ti c) (\<lambda>t.
     Inr (t * Qloss_char c expr + tiP_char c expr * val (Qloss c))))"

text \<open>
  The words of the specification. The mass fraction of a species at a port; the thermal
  input as the lower-heating-value-weighted net fuel mass flow over the ports
  \<^verbatim>\<open>in3\<close>, \<^verbatim>\<open>in4\<close> and \<^verbatim>\<open>out3\<close>; the reference enthalpy of a port at 298.15 K and
  \<open>10\<^sup>5\<close> Pa with the gas phase forced; the load ratio; and the state in which the
  dictionary accesses of the thermal input find their keys.
\<close>

definition fraction :: "real connection \<Rightarrow> string \<Rightarrow> real" where
  "fraction x f = the (map_of (fluid_val x) f)"

definition spec_thermal_input :: "engine \<Rightarrow> real" where
  "spec_thermal_input c =
     (\<Sum>f\<leftarrow>fuel_list c. fuel_LHV (the (map_of (fuels c) f)) *
        (m_val_SI (inl c ! 2) * fraction (inl c ! 2) f +
         m_val_SI (inl c ! 3) * fraction (inl c ! 3) f -
         m_val_SI (outl c ! 2) * fraction (outl c ! 2) f))"

definition h_ref :: "base \<Rightarrow> real connection \<Rightarrow> real" where
  "h_ref b x = h_mix_pT b (0, 100000, 0, fluid_val x) (298.15) True"

definition spec_load_ratio :: "engine \<Rightarrow> real" where
  "spec_load_ratio c = (case design (P c) of None \<Rightarrow> 1 | Some d \<Rightarrow> val (P c) / d)"

definition ports_ok :: "engine \<Rightarrow> bool" where
  "ports_ok c \<longleftrightarrow> length (inl c) = 4 \<and> length (outl c) = 3"

definition fuels_ok :: "engine \<Rightarrow> bool" where
  "fuels_ok c \<longleftrightarrow>
     list_all (\<lambda>f. f \<in> fst ` set (fuels c) \<and>
                  list_all (\<lambda>x. f \<in> fst ` set (fluid_val x)) (drop 2 (inl c) @ drop 2 (outl c)))
       (fuel_list c)"


section \<open>Arrays\<close>

text \<open>
  \<^verbatim>\<open>np.zeros(shape)\<close>, the assignment \<^verbatim>\<open>a[k, i, j] = v\<close> to a cell and the assignment
  \<^verbatim>\<open>a[k, i, 3:] = v\<close> to the composition entries of a row. An index outside the shape
  raises an IndexError. A cell takes a number or a vector of one entry; the slice takes a
  number or a vector of one entry, which fill it, or a vector of its own length.
\<close>

definition zeros3 :: "nat \<times> nat \<times> nat \<Rightarrow> ndarray3" where
  "zeros3 s = \<lparr>shape = s, cells = (\<lambda>k i j. 0)\<rparr>"

definition sequence_msg :: string where
  "sequence_msg = ''setting an array element with a sequence.''"

definition broadcast_msg :: string where
  "broadcast_msg = ''could not broadcast input array''"

definition setcell :: "nat \<Rightarrow> nat \<Rightarrow> nat \<Rightarrow> ndval \<Rightarrow> ndarray3 \<Rightarrow> error + ndarray3" where
  "setcell k i j v a =
     (case shape a of (nk, ni, nj) \<Rightarrow>
        if k < nk \<and> i < ni \<and> j < nj then
          (let put = (\<lambda>x. a\<lparr>cells := (\<lambda>k' i' j'.
                        if k' = k \<and> i' = i \<and> j' = j then x else cells a k' i' j')\<rparr>)
           in case v of
                Scalar x \<Rightarrow> Inr (put x)
              | Vector xs \<Rightarrow>
                  (if length xs = 1 then Inr (put (hd xs))
                   else Inl (ValueError sequence_msg)))
        else Inl IndexError)"

definition settail :: "nat \<Rightarrow> nat \<Rightarrow> ndval \<Rightarrow> ndarray3 \<Rightarrow> error + ndarray3" where
  "settail k i v a =
     (case shape a of (nk, ni, nj) \<Rightarrow>
        if k < nk \<and> i < ni then
          (let put = (\<lambda>g. a\<lparr>cells := (\<lambda>k' i' j'.
                        if k' = k \<and> i' = i \<and> 3 \<le> j' \<and> j' < nj then g (j' - 3)
                        else cells a k' i' j')\<rparr>)
           in case v of
                Scalar x \<Rightarrow> Inr (put (\<lambda>j. x))
              | Vector xs \<Rightarrow>
                  (if length xs = nj - 3 then Inr (put (\<lambda>j. xs ! j))
                   else if length xs = 1 then Inr (put (\<lambda>j. hd xs))
                   else Inl (ValueError broadcast_msg)))
        else Inl IndexError)"

text \<open>The exceptions that an assignment to an array can raise.\<close>

definition array_error :: "error \<Rightarrow> bool" where
  "array_error e \<longleftrightarrow>
     e = IndexError \<or> e = ValueError sequence_msg \<or> e = ValueError broadcast_msg"

section \<open>Bus accounting\<close>

definition calc_P :: "engine \<Rightarrow> error + real" where
  "calc_P c =
     bindE (load_expr c) (\<lambda>expr.
     bindE (calc_ti c) (\<lambda>t.
     py_div (- t) (tiP_char c expr)))"

definition calc_Qloss :: "engine \<Rightarrow> error + real" where
  "calc_Qloss c =
     bindE (load_expr c) (\<lambda>expr.
     bindE (calc_ti c) (\<lambda>t.
     py_div (- t * Qloss_char c expr) (tiP_char c expr)))"

text \<open>\<^verbatim>\<open>component()\<close> and the message of the invalid bus parameter.\<close>

definition component :: string where
  "component = ''combustion engine''"

definition invalid_bus_msg :: "string \<Rightarrow> string" where
  "invalid_bus_msg param =
     ''The parameter '' @ param @ '' is not a valid parameter for a '' @ component @ ''.''"

text \<open>
  \<^verbatim>\<open>bus_func\<close>, by the parameter \<^verbatim>\<open>bus['param']\<close> of the bus entry. The result comes
  with the records sent to \<^verbatim>\<open>logging\<close>: the last branch logs the message as an error
  and raises a ValueError with it.
\<close>

definition bus_func :: "engine \<Rightarrow> string \<Rightarrow> (error + real) \<times> (log_level \<times> string) list" where
  "bus_func c param =
     (if param = ''TI'' then (calc_ti c, [])
      else if param = ''P'' then (calc_P c, [])
      else if param = ''Q'' then
        (Inr (fold (\<lambda>j v. v - m_val_SI (inl c ! j) *
                      (h_val_SI (outl c ! j) - h_val_SI (inl c ! j))) [0..<2] 0), [])
      else if param = ''Q1'' then
        (Inr (- m_val_SI (inl c ! 0) * (h_val_SI (outl c ! 0) - h_val_SI (inl c ! 0))), [])
      else if param = ''Q2'' then
        (Inr (- m_val_SI (inl c ! 1) * (h_val_SI (outl c ! 1) - h_val_SI (inl c ! 1))), [])
      else if param = ''Qloss'' then (calc_Qloss c, [])
      else (Inl (ValueError (invalid_bus_msg param)), [(ERROR, invalid_bus_msg param)]))"

text \<open>
  \<^verbatim>\<open>bus_deriv\<close>, by the parameter \<^verbatim>\<open>bus.comps.loc[self]['param']\<close>: a fresh array of
  shape \<^verbatim>\<open>(1, 7 + num_vars, num_nw_vars)\<close> and the numeric derivatives of
  \<^verbatim>\<open>calc_bus_value\<close> written into it.
\<close>

definition bus_deriv :: "base \<Rightarrow> engine \<Rightarrow> string \<Rightarrow> (error + ndarray3) \<times> (log_level \<times> string) list" where
  "bus_deriv b c param =
     (let deriv = zeros3 (1, 7 + num_vars c, num_nw_vars c);
          f = calc_bus_value b param;
          combustion = foldE (\<lambda>i d.
             bindE (setcell 0 i 0 (numeric_deriv b f ''m'' i c) d)
               (settail 0 i (numeric_deriv b f ''fluid'' i c))) [2, 3, 6]
      in if param = ''TI'' then (combustion deriv, [])
         else if param = ''P'' \<or> param = ''Qloss'' then
           (bindE (combustion deriv) (\<lambda>d.
              if is_var (P c)
              then setcell 0 (7 + var_pos (P c)) 0 (numeric_deriv b f ''P'' 7 c) d
              else Inr d), [])
         else if param = ''Q'' then
           (foldE (\<lambda>i d.
              bindE (setcell 0 i 0 (numeric_deriv b f ''m'' i c) d) (\<lambda>d.
              bindE (setcell 0 i 2 (numeric_deriv b f ''h'' i c) d)
                (setcell 0 (i + 4) 2 (numeric_deriv b f ''h'' (i + 4) c)))) [0..<2] deriv, [])
         else if param = ''Q1'' then
           (bindE (setcell 0 0 0 (numeric_deriv b f ''m'' 0 c) deriv) (\<lambda>d.
            bindE (setcell 0 0 2 (numeric_deriv b f ''h'' 0 c) d)
              (setcell 0 4 2 (numeric_deriv b f ''h'' 4 c))), [])
         else if param = ''Q2'' then
           (bindE (setcell 0 1 0 (numeric_deriv b f ''m'' 1 c) deriv) (\<lambda>d.
            bindE (setcell 0 1 2 (numeric_deriv b f ''h'' 1 c) d)
              (setcell 0 5 2 (numeric_deriv b f ''h'' 5 c))), [])
         else (Inl (ValueError (invalid_bus_msg param)), [(ERROR, invalid_bus_msg param)]))"

text \<open>The names a bus may ask for, and the quantity the specification gives each.\<close>

definition bus_params :: "string list" where
  "bus_params = [''TI'', ''P'', ''Q'', ''Q1'', ''Q2'', ''Qloss'']"

definition loop_heat :: "engine \<Rightarrow> nat \<Rightarrow> real" where
  "loop_heat c i = m_val_SI (inl c ! i) * (h_val_SI (outl c ! i) - h_val_SI (inl c ! i))"

definition spec_bus_value :: "engine \<Rightarrow> string \<Rightarrow> real" where
  "spec_bus_value c param =
     (if param = ''TI'' then spec_thermal_input c
      else if param = ''P'' then - spec_thermal_input c / tiP_char c (spec_load_ratio c)
      else if param = ''Q'' then - loop_heat c 0 - loop_heat c 1
      else if param = ''Q1'' then - loop_heat c 0
      else if param = ''Q2'' then - loop_heat c 1
      else - spec_thermal_input c * Qloss_char c (spec_load_ratio c) /
             tiP_char c (spec_load_ratio c))"

section \<open>Initialisation\<close>

text \<open>
  What the engine reads from the network object \<^verbatim>\<open>nw\<close>: the names of its fluids and
  its flag \<^verbatim>\<open>always_all_equations\<close>.
\<close>

record network =
  fluids :: "string list"
  nw_always_all_equations :: bool

text \<open>
  Modelled from the spec: \<^verbatim>\<open>set_attr(P='var')\<close> of the base class, which is not in the
  sources. The specification calls it marking the parameter as a free variable: the
  parameter becomes \<^verbatim>\<open>is_var\<close>.
\<close>

definition set_attr_var :: "dc_cp \<Rightarrow> dc_cp" where
  "set_attr_var p = p\<lparr>is_var := True\<rparr>"

text \<open>The parameters of the engine, in the order of \<^verbatim>\<open>attr()\<close>.\<close>

definition attr_parameters :: "engine \<Rightarrow> dc_cp list" where
  "attr_parameters c =
     [lamb c, ti c, P c, Q1 c, Q2 c, Qloss c, pr1 c, pr2 c, zeta1 c, zeta2 c]"

text \<open>
  Modelled from the spec: the slot of a free variable. A parameter that is a variable
  takes the next free slot of the component's variables: its position is the number of
  variables among the parameters before it.
\<close>

definition assign_var :: "dc_cp list \<Rightarrow> dc_cp \<Rightarrow> dc_cp" where
  "assign_var before p =
     (if is_var p then p\<lparr>var_pos := length (filter is_var before)\<rparr> else p)"

text \<open>
  Modelled from the spec: \<^verbatim>\<open>Component.comp_init\<close>, which is not in the sources. It
  records the fluids of the network and their number, the number of network variables per
  connection (mass flow, pressure, enthalpy and one per fluid), the numbers of inlets and
  outlets, the driver's flag, and the component's private free variables: every parameter
  that is a variable gets the next slot, in the order of \<^verbatim>\<open>attr()\<close>, and \<^verbatim>\<open>num_vars\<close>
  counts them.
\<close>

definition base_comp_init :: "network \<Rightarrow> engine \<Rightarrow> engine" where
  "base_comp_init nw c =
     (let ps = attr_parameters c in
      c\<lparr>lamb := assign_var (take 0 ps) (lamb c),
        ti := assign_var (take 1 ps) (ti c),
        P := assign_var (take 2 ps) (P c),
        Q1 := assign_var (take 3 ps) (Q1 c),
        Q2 := assign_var (take 4 ps) (Q2 c),
        Qloss := assign_var (take 5 ps) (Qloss c),
        pr1 := assign_var (take 6 ps) (pr1 c),
        pr2 := assign_var (take 7 ps) (pr2 c),
        zeta1 := assign_var (take 8 ps) (zeta1 c),
        zeta2 := assign_var (take 9 ps) (zeta2 c),
        nw_fluids := fluids nw,
        num_nw_fluids := length (fluids nw),
        num_nw_vars := length (fluids nw) + 3,
        num_vars := length (filter is_var ps),
        num_i := length (inl c),
        num_o := length (outl c),
        it := 0,
        always_all_equations := nw_always_all_equations nw\<rparr>)"

text \<open>
  What \<^verbatim>\<open>setup_reaction_parameters\<close> of the combustion chamber, which is not in the
  sources, stores in the engine: the fuels of the network with their data and the names
  of oxygen, carbon dioxide, water and nitrogen.
\<close>

record reaction_parameters =
  rp_fuel_list :: "string list"
  rp_fuels :: "(string \<times> fuel) list"
  rp_o2 :: string
  rp_co2 :: string
  rp_h2o :: string
  rp_n2 :: string

text \<open>
  \<^verbatim>\<open>fluid_deriv\<close>. The second loop reads the variable \<^verbatim>\<open>i\<close> that the first loop has
  left at \<^verbatim>\<open>num_nw_fluids - 1\<close>.
\<close>

definition fluid_deriv :: "engine \<Rightarrow> error + ndarray3" where
  "fluid_deriv c =
     (let deriv = zeros3 (num_nw_fluids c * 2, 7 + num_vars c, num_nw_vars c) in
      bindE (foldE (\<lambda>i d. bindE (setcell i 0 (i + 3) (Scalar 1) d)
                              (setcell i 4 (i + 3) (Scalar (- 1))))
               [0..<num_nw_fluids c] deriv) (\<lambda>deriv.
      (let i = num_nw_fluids c - 1 in
       foldE (\<lambda>j d. bindE (setcell (i + 1 + j) 1 (j + 3) (Scalar 1) d)
                       (setcell (i + 1 + j) 5 (j + 3) (Scalar (- 1))))
         [0..<num_nw_fluids c] deriv)))"

definition mass_flow_deriv :: "engine \<Rightarrow> error + ndarray3" where
  "mass_flow_deriv c =
     (let deriv = zeros3 (3, 7 + num_vars c, num_nw_vars c) in
      bindE (foldE (\<lambda>i. setcell i i 0 (Scalar 1)) [0..<2] deriv) (\<lambda>deriv.
      bindE (foldE (\<lambda>j. setcell j (num_i c + j) 0 (Scalar (- 1))) [0..<2] deriv) (\<lambda>deriv.
      bindE (setcell 2 2 0 (Scalar 1) deriv) (\<lambda>deriv.
      bindE (setcell 2 3 0 (Scalar 1) deriv) (\<lambda>deriv.
      setcell 2 6 0 (Scalar (- 1)) deriv)))))"

definition pressure_deriv :: "engine \<Rightarrow> error + ndarray3" where
  "pressure_deriv c =
     (let deriv = zeros3 (2, 7 + num_vars c, num_nw_vars c) in
      bindE (foldE (\<lambda>k. setcell k 2 1 (Scalar 1)) [0..<2] deriv) (\<lambda>deriv.
      bindE (setcell 0 6 1 (Scalar (- 1)) deriv) (\<lambda>deriv.
      setcell 1 3 1 (Scalar (- 1)) deriv)))"

text \<open>
  The assignment \<^verbatim>\<open>a[lo:hi] = src\<close> of an array to a block of rows. The slice is cut at
  the number of rows of \<^verbatim>\<open>a\<close>; the shape of \<^verbatim>\<open>src\<close> has to be the shape of the block.
  (None of the three arrays assigned below has an axis of length one, which numpy would
  stretch.)
\<close>

definition set_rows :: "nat \<Rightarrow> nat \<Rightarrow> ndarray3 \<Rightarrow> ndarray3 \<Rightarrow> error + ndarray3" where
  "set_rows lo hi src a =
     (case shape a of (nk, ni, nj) \<Rightarrow>
        (let hi' = min hi nk; lo' = min lo hi' in
         if shape src = (hi' - lo', ni, nj)
         then Inr (a\<lparr>cells := (\<lambda>k i j. if lo' \<le> k \<and> k < hi' then cells src (k - lo') i j
                                         else cells a k i j)\<rparr>)
         else Inl (ValueError broadcast_msg)))"

definition power_msg :: "string \<Rightarrow> string" where
  "power_msg l = ''The power output of combustion engines must be set! '' @
     ''We are adding the power output of component '' @ l @
     '' as custom variable of the system.''"

definition heat_loss_msg :: "string \<Rightarrow> string" where
  "heat_loss_msg l = ''The heat loss of combustion engines must be set! '' @
     ''We are adding the heat loss of component '' @ l @
     '' as custom variable of the system.''"

text \<open>The parameters whose \<^verbatim>\<open>is_set\<close> adds an equation, in the order of the source.\<close>

definition optional_parameters :: "engine \<Rightarrow> dc_cp list" where
  "optional_parameters c = [lamb c, ti c, Q1 c, Q2 c, pr1 c, pr2 c, zeta1 c, zeta2 c]"

text \<open>
  \<^verbatim>\<open>comp_init\<close>, in the order of the source. First the promotion of \<^verbatim>\<open>P\<close> and of
  \<^verbatim>\<open>Qloss\<close>: a parameter that is not set is made a variable, and a message is logged
  at the level of information.
\<close>

definition promote_mandatory :: "engine \<Rightarrow> engine" where
  "promote_mandatory c =
     (let c = (if \<not> is_set (P c)
               then c\<lparr>P := set_attr_var (P c),
                      logged := logged c @ [(INFO, power_msg (label c))]\<rparr>
               else c)
      in if \<not> is_set (Qloss c)
         then c\<lparr>Qloss := set_attr_var (Qloss c),
                logged := logged c @ [(INFO, heat_loss_msg (label c))]\<rparr>
         else c)"

text \<open>
  The number of equations: \<^verbatim>\<open>num_nw_fluids * 2 + 3 + 2 + num_nw_fluids + 5\<close>, and
  one more for every parameter of the list that is set.
\<close>

definition count_equations :: "engine \<Rightarrow> engine" where
  "count_equations c =
     c\<lparr>num_eq :=
         fold (\<lambda>var n. if is_set var then n + 1 else n) (optional_parameters c)
           (num_nw_fluids c * 2 + 3 + 2 + num_nw_fluids c + 5)\<rparr>"

text \<open>The Jacobian and the residual vector, filled with zeros.\<close>

definition allocate :: "engine \<Rightarrow> engine" where
  "allocate c =
     (let c = c\<lparr>jacobian := zeros3 (num_eq c, num_i c + num_o c + num_vars c, num_nw_vars c)\<rparr>
      in c\<lparr>residual := replicate (num_eq c) 0\<rparr>)"

text \<open>
  The three constant blocks: \<^verbatim>\<open>jacobian[0:pos]\<close>, \<^verbatim>\<open>jacobian[pos:pos + 3]\<close> and
  \<^verbatim>\<open>jacobian[pos + 3:pos + 5]\<close> with \<^verbatim>\<open>pos = num_nw_fluids * 2\<close>.
\<close>

definition constant_blocks :: "engine \<Rightarrow> error + engine" where
  "constant_blocks c =
     (let pos = num_nw_fluids c * 2 in
      bindE (fluid_deriv c) (\<lambda>d.
      bindE (set_rows 0 pos d (jacobian c)) (\<lambda>jac.
      (let c = c\<lparr>jacobian := jac\<rparr> in
       bindE (mass_flow_deriv c) (\<lambda>d.
       bindE (set_rows pos (pos + 3) d (jacobian c)) (\<lambda>jac.
       (let c = c\<lparr>jacobian := jac\<rparr> in
        bindE (pressure_deriv c) (\<lambda>d.
        bindE (set_rows (pos + 3) (pos + 5) d (jacobian c)) (\<lambda>jac.
        Inr (c\<lparr>jacobian := jac\<rparr>))))))))))"

text \<open>
  The whole of \<^verbatim>\<open>comp_init\<close>; \<^verbatim>\<open>setup_reaction_parameters\<close> comes last.
\<close>

definition comp_init :: "(engine \<Rightarrow> reaction_parameters) \<Rightarrow> network \<Rightarrow> engine \<Rightarrow> error + engine" where
  "comp_init setup_reaction_parameters nw c =
     bindE (constant_blocks (allocate (count_equations (base_comp_init nw
              (promote_mandatory c))))) (\<lambda>c.
       (let rp = setup_reaction_parameters c
        in Inr (c\<lparr>fuel_list := rp_fuel_list rp, fuels := rp_fuels rp, o2 := rp_o2 rp,
                  co2 := rp_co2 rp, h2o := rp_h2o rp, n2 := rp_n2 rp\<rparr>)))"

text \<open>
  An array whose rows \<open>0\<close> to \<open>2 F + 4\<close> are the rows of three given arrays: \<open>2 F\<close> rows of
  the first, three of the second, two of the third.
\<close>

definition blocks :: "nat \<Rightarrow> ndarray3 \<Rightarrow> ndarray3 \<Rightarrow> ndarray3 \<Rightarrow> ndarray3 \<Rightarrow> ndarray3" where
  "blocks F dF dM dP a = a\<lparr>cells := (\<lambda>k i j.
       if k < 2 * F then cells dF k i j
       else if k < 2 * F + 3 then cells dM (k - 2 * F) i j
       else if k < 2 * F + 5 then cells dP (k - (2 * F + 3)) i j
       else cells a k i j)\<rparr>"

text \<open>The number of equations in the words of the specification.\<close>

definition spec_num_eq :: "nat \<Rightarrow> engine \<Rightarrow> nat" where
  "spec_num_eq F c = 2 * F + 3 + 2 + F + 5 + length (filter is_set (optional_parameters c))"

section \<open>Starting values of the flue gas\<close>

text \<open>
  The first part of \<^verbatim>\<open>initialise_fluids\<close>: the dictionary \<^verbatim>\<open>fg\<close>. The first loop
  sets \<^verbatim>\<open>fact_fuel[f]\<close> to the sum of \<^verbatim>\<open>i.fluid.val[f] / 2\<close> over all inlets and adds
  it to \<^verbatim>\<open>sum_fuel\<close>; the second divides every \<^verbatim>\<open>fact_fuel[f]\<close> by \<^verbatim>\<open>sum_fuel\<close>; the
  third sums the masses of carbon dioxide, water and fuel; the rest is arithmetic.
  \<^verbatim>\<open>N_2 = 0.7655\<close>, \<^verbatim>\<open>O_2 = 0.2345\<close>, \<^verbatim>\<open>n_fuel = 1\<close> and \<^verbatim>\<open>lamb = 3\<close>.
\<close>

definition fact_fuel_sums :: "engine \<Rightarrow> error + (string \<times> real) list \<times> real" where
  "fact_fuel_sums c =
     foldE (\<lambda>f (fact_fuel, sum_fuel).
        bindE (foldE (\<lambda>i v. bindE (getitem (fluid_val i) f) (\<lambda>x. Inr (v + x / 2)))
                 (inl c) 0) (\<lambda>v.
        Inr (AList.update f v fact_fuel, sum_fuel + v)))
       (fuel_list c) ([], 0)"

definition fact_fuel_normalised :: "engine \<Rightarrow> (string \<times> real) list \<Rightarrow> real \<Rightarrow> error + (string \<times> real) list" where
  "fact_fuel_normalised c fact_fuel sum_fuel =
     foldE (\<lambda>f fact_fuel.
        bindE (getitem fact_fuel f) (\<lambda>v.
        bindE (py_div v sum_fuel) (\<lambda>q.
        Inr (AList.update f q fact_fuel))))
       (fuel_list c) fact_fuel"

definition fuel_masses :: "base \<Rightarrow> engine \<Rightarrow> (string \<times> real) list \<Rightarrow> error + real \<times> real \<times> real" where
  "fuel_masses b c fact_fuel =
     foldE (\<lambda>f (m_co2, m_h2o, m_fuel).
        bindE (getitem (fuels c) f) (\<lambda>fu.
        bindE (getitem (molar_masses b) (co2 c)) (\<lambda>M_co2.
        bindE (getitem fact_fuel f) (\<lambda>x.
        bindE (getitem (molar_masses b) (h2o c)) (\<lambda>M_h2o.
        bindE (getitem (molar_masses b) f) (\<lambda>M_f.
        Inr (m_co2 + 1 * fuel_C fu * M_co2 * x,
             m_h2o + 1 * fuel_H fu / 2 * M_h2o * x,
             m_fuel + 1 * M_f * x)))))))
       (fuel_list c) (0, 0, 0)"

definition flue_gas_guess :: "base \<Rightarrow> engine \<Rightarrow> error + (string \<times> real) list" where
  "flue_gas_guess b c =
     bindE (fact_fuel_sums c) (\<lambda>(fact_fuel, sum_fuel).
     bindE (fact_fuel_normalised c fact_fuel sum_fuel) (\<lambda>fact_fuel.
     bindE (fuel_masses b c fact_fuel) (\<lambda>(m_co2, m_h2o, m_fuel).
     bindE (getitem (molar_masses b) (co2 c)) (\<lambda>M_co2.
     bindE (py_div m_co2 M_co2) (\<lambda>n_co2.
     bindE (getitem (molar_masses b) (h2o c)) (\<lambda>M_h2o.
     bindE (py_div (1 / 2 * m_h2o) M_h2o) (\<lambda>n_h2o.
     bindE (getitem (molar_masses b) (o2 c)) (\<lambda>M_o2.
     (let n_o2 = (n_co2 + n_h2o) * 3;
          m_air = n_o2 * M_o2 / (2345 / 10000);
          m_fg = m_air + m_fuel;
          m_o2 = n_o2 * M_o2 * (1 - 1 / 3);
          m_n2 = 7655 / 10000 * m_air
      in bindE (py_div m_n2 m_fg) (\<lambda>x_n2.
         bindE (py_div m_co2 m_fg) (\<lambda>x_co2.
         bindE (py_div m_o2 m_fg) (\<lambda>x_o2.
         bindE (py_div m_h2o m_fg) (\<lambda>x_h2o.
         Inr (AList.update (h2o c) x_h2o (AList.update (o2 c) x_o2
               (AList.update (co2 c) x_co2 (AList.update (n2 c) x_n2 [])))))))))))))))))"

text \<open>
  The loop over the composition of the flue gas outlet \<^verbatim>\<open>o = self.outl[2]\<close>: a
  fraction that is not set and has a guess takes the guess.
\<close>

definition initialise_outlet :: "(string \<times> real) list \<Rightarrow> real connection \<Rightarrow> error + real connection" where
  "initialise_outlet fg out =
     foldE (\<lambda>(fluid, x) out.
        bindE (getitem (fluid_val_set out) fluid) (\<lambda>is_set_fluid.
        if \<not> is_set_fluid \<and> map_of fg fluid \<noteq> None
        then bindE (getitem fg fluid) (\<lambda>v.
               Inr (out\<lparr>fluid_val := AList.update fluid v (fluid_val out)\<rparr>))
        else Inr out))
       (fluid_val out) out"

section \<open>Propagation of the composition through the network\<close>

text \<open>
  The connections of a network are objects that several components share, so they live
  in a store, by number. The network also says which connections a component has at its
  inlets and outlets and whether a component is a combustion engine. The methods of the
  other classes are not in the sources; \<open>other_to_target\<close> and \<open>other_to_source\<close> stand
  for them and get, as their first argument, the way to call the method of the next
  component.
\<close>

record net =
  conns :: "nat \<Rightarrow> real connection"
  comp_inl :: "nat \<Rightarrow> nat list"
  comp_outl :: "nat \<Rightarrow> nat list"
  is_engine :: "nat \<Rightarrow> bool"

type_synonym propagate = "net \<Rightarrow> nat \<Rightarrow> nat \<Rightarrow> nat \<Rightarrow> error + net"

record others =
  other_to_target :: "propagate \<Rightarrow> propagate"
  other_to_source :: "propagate \<Rightarrow> propagate"

text \<open>
  The inner loop of both methods: every fraction of the connection \<open>src\<close> is written to
  the connection \<open>dst\<close> when that fraction of \<open>dst\<close> is not set and \<open>dst\<close> has no good
  starting values.
\<close>

definition copy_fluid :: "real connection \<Rightarrow> real connection \<Rightarrow> error + real connection" where
  "copy_fluid src dst =
     foldE (\<lambda>(fluid, x) dst.
        bindE (getitem (fluid_val_set dst) fluid) (\<lambda>is_set_fluid.
        if is_set_fluid = False \<and> good_starting_values dst = False
        then Inr (dst\<lparr>fluid_val := AList.update fluid x (fluid_val dst)\<rparr>)
        else Inr dst))
       (fluid_val src) dst"

text \<open>
  \<^verbatim>\<open>propagate_fluid_to_target(self, inconn, start)\<close>: for the outlets
  \<^verbatim>\<open>self.outl[:2]\<close>, the inner loop and then the method of the target of the outlet.
  The first argument bounds the depth of the recursion, as Python's recursion limit does:
  at the bound the call raises a RecursionError.
\<close>

primrec propagate_fluid_to_target :: "others \<Rightarrow> nat \<Rightarrow> net \<Rightarrow> nat \<Rightarrow> nat \<Rightarrow> nat \<Rightarrow> error + net" where
  "propagate_fluid_to_target oth 0 = (\<lambda>nw self inconn start. Inl RecursionError)"
| "propagate_fluid_to_target oth (Suc depth) = (\<lambda>nw self inconn start.
     if is_engine nw self then
       foldE (\<lambda>outconn nw.
          bindE (copy_fluid (conns nw inconn) (conns nw outconn)) (\<lambda>out'.
          (let nw = nw\<lparr>conns := (conns nw)(outconn := out')\<rparr> in
           propagate_fluid_to_target oth depth nw (target (conns nw outconn)) outconn start)))
         (take 2 (comp_outl nw self)) nw
     else other_to_target oth (propagate_fluid_to_target oth depth) nw self inconn start)"

text \<open>
  \<^verbatim>\<open>propagate_fluid_to_source(self, outconn, start)\<close>: for the inlets
  \<^verbatim>\<open>self.inl[:2]\<close>, the inner loop and then the method of the source of the inlet.
\<close>

primrec propagate_fluid_to_source :: "others \<Rightarrow> nat \<Rightarrow> net \<Rightarrow> nat \<Rightarrow> nat \<Rightarrow> nat \<Rightarrow> error + net" where
  "propagate_fluid_to_source oth 0 = (\<lambda>nw self outconn start. Inl RecursionError)"
| "propagate_fluid_to_source oth (Suc depth) = (\<lambda>nw self outconn start.
     if is_engine nw self then
       foldE (\<lambda>inconn nw.
          bindE (copy_fluid (conns nw outconn) (conns nw inconn)) (\<lambda>in'.
          (let nw = nw\<lparr>conns := (conns nw)(inconn := in')\<rparr> in
           propagate_fluid_to_source oth depth nw (source (conns nw inconn)) inconn start)))
         (take 2 (comp_inl nw self)) nw
     else other_to_source oth (propagate_fluid_to_source oth depth) nw self outconn start)"

text \<open>
  \<^verbatim>\<open>initialise_fluids\<close> of the engine \<open>c\<close> that is the component \<open>self\<close> of the
  network: the ports of the engine are the connections of the store; the guess is
  written to the flue gas outlet, and the target of the outlet propagates it.
\<close>

definition with_ports :: "net \<Rightarrow> nat \<Rightarrow> engine \<Rightarrow> engine" where
  "with_ports nw self c =
     c\<lparr>inl := map (conns nw) (comp_inl nw self), outl := map (conns nw) (comp_outl nw self)\<rparr>"

definition initialise_fluids :: "others \<Rightarrow> base \<Rightarrow> nat \<Rightarrow> net \<Rightarrow> nat \<Rightarrow> engine \<Rightarrow> error + net" where
  "initialise_fluids oth b depth nw self c =
     (let c = with_ports nw self c in
      bindE (flue_gas_guess b c) (\<lambda>fg.
      (let out = comp_outl nw self ! 2 in
       bindE (initialise_outlet fg (conns nw out)) (\<lambda>out'.
       (let nw = nw\<lparr>conns := (conns nw)(out := out')\<rparr> in
        propagate_fluid_to_target oth depth nw (target (conns nw out)) out
          (target (conns nw out)))))))"

text \<open>
  The states of the claim about the division: every fuel of the engine has the fraction
  zero at every inlet; some fuel has a positive fraction at some inlet; no fraction of an
  inlet is negative.
\<close>

definition no_fuel_at_inlets :: "engine \<Rightarrow> bool" where
  "no_fuel_at_inlets c \<longleftrightarrow>
     list_all (\<lambda>f. list_all (\<lambda>i. map_of (fluid_val i) f = Some 0) (inl c)) (fuel_list c)"

definition some_fuel_at_inlets :: "engine \<Rightarrow> bool" where
  "some_fuel_at_inlets c \<longleftrightarrow>
     list_ex (\<lambda>f. list_ex (\<lambda>i. case map_of (fluid_val i) f of None \<Rightarrow> False | Some x \<Rightarrow> 0 < x)
       (inl c)) (fuel_list c)"

definition fractions_nonnegative :: "engine \<Rightarrow> bool" where
  "fractions_nonnegative c \<longleftrightarrow>
     list_all (\<lambda>i. list_all (\<lambda>(k, x). 0 \<le> x) (fluid_val i)) (inl c)"

definition molar_masses_ok :: "base \<Rightarrow> engine \<Rightarrow> bool" where
  "molar_masses_ok b c \<longleftrightarrow>
     list_all (\<lambda>k. map_of (molar_masses b) k \<noteq> None) [co2 c, h2o c, o2 c]"

section \<open>Residuals\<close>

text \<open>
  \<^verbatim>\<open>fluid_func\<close>: for both cooling loops and every fluid of the inlet, the fraction at
  the inlet minus the fraction at the outlet.
\<close>

definition fluid_func :: "engine \<Rightarrow> error + real list" where
  "fluid_func c =
     foldE (\<lambda>i res.
        foldE (\<lambda>(fluid, x) res.
           bindE (getitem (fluid_val (outl c ! i)) fluid) (\<lambda>y. Inr (res @ [x - y])))
          (fluid_val (inl c ! i)) res)
       [0..<2] []"

definition Q1_func :: "engine \<Rightarrow> error + real" where
  "Q1_func c =
     (let i = inl c ! 0; out = outl c ! 0 in
      Inr (m_val_SI i * (h_val_SI out - h_val_SI i) + val (Q1 c)))"

definition Q2_func :: "engine \<Rightarrow> error + real" where
  "Q2_func c =
     (let i = inl c ! 1; out = outl c ! 1 in
      Inr (m_val_SI i * (h_val_SI out - h_val_SI i) + val (Q2 c)))"

text \<open>
  The assignment \<^verbatim>\<open>residual[lo:hi] = values\<close> of a list to a slice of the residual
  vector: the slice is cut at the length of the vector, and the list has to have the
  length of the slice, or one entry, which fills it.
\<close>

definition set_slice :: "nat \<Rightarrow> nat \<Rightarrow> real list \<Rightarrow> real list \<Rightarrow> error + real list" where
  "set_slice lo hi vs r =
     (let hi' = min hi (length r); lo' = min lo hi' in
      if length vs = hi' - lo' then Inr (take lo' r @ vs @ drop hi' r)
      else if length vs = 1 then Inr (take lo' r @ replicate (hi' - lo') (hd vs) @ drop hi' r)
      else Inl (ValueError broadcast_msg))"

text \<open>
  \<^verbatim>\<open>equations\<close> changes the residual vector in place, so an exception leaves the
  entries written before it. A step of the method takes the row counter \<^verbatim>\<open>k\<close> and the
  vector and returns them with the exception it has raised, if any.
\<close>

type_synonym rstate = "nat \<times> real list"

fun run :: "(rstate \<Rightarrow> rstate \<times> error option) list \<Rightarrow> rstate \<Rightarrow> rstate \<times> error option" where
  "run [] s = (s, None)"
| "run (f # fs) s = (case f s of (s', None) \<Rightarrow> run fs s' | (s', Some e) \<Rightarrow> (s', Some e))"

text \<open>
  The condition of the selective evaluation:
  \<^verbatim>\<open>np.absolute(self.residual[k]) > err ** 2 or self.it % 4 == 0 or
  self.always_all_equations\<close>, on the stored value of the row.
\<close>

definition recompute :: "base \<Rightarrow> engine \<Rightarrow> real \<Rightarrow> bool" where
  "recompute b c stored \<longleftrightarrow>
     \<bar>stored\<bar> > (err b)\<^sup>2 \<or> it c mod 4 = 0 \<or> always_all_equations c"

text \<open>
  The two forms of a block of the method. A guarded block reads \<^verbatim>\<open>residual[k]\<close>,
  evaluates the equation and stores the result only under the condition, and moves to the
  next row. A plain block evaluates the equation, stores the result and moves on.
\<close>

definition guarded_row :: "base \<Rightarrow> engine \<Rightarrow> error + real \<Rightarrow> rstate \<Rightarrow> rstate \<times> error option" where
  "guarded_row b c f = (\<lambda>(k, r).
     if k < length r then
       (if recompute b c (r ! k) then
          (case f of Inl e \<Rightarrow> ((k, r), Some e) | Inr v \<Rightarrow> ((k + 1, r[k := v]), None))
        else ((k + 1, r), None))
     else ((k, r), Some IndexError))"

definition plain_row :: "error + real \<Rightarrow> rstate \<Rightarrow> rstate \<times> error option" where
  "plain_row f = (\<lambda>(k, r).
     case f of
       Inl e \<Rightarrow> ((k, r), Some e)
     | Inr v \<Rightarrow> if k < length r then ((k + 1, r[k := v]), None) else ((k, r), Some IndexError))"

text \<open>
  The equations after the constant blocks, by name: the reaction balance of a fluid, the
  energy balance, the four characteristic lines, and the equations of the parameters.
\<close>

datatype equation =
    ReactionBalance string
  | EnergyBalance
  | TiPChar
  | Q1Char
  | Q2Char
  | QlossChar
  | LambTarget
  | TiTarget
  | Q1Target
  | Q2Target
  | Pr1Target
  | Pr2Target
  | Zeta1Target
  | Zeta2Target

text \<open>
  The value of an equation. The methods of the engine and of its base classes compute it
  from the ports and the parameters; they do not read the residual vector.
\<close>

fun residual_of :: "base \<Rightarrow> engine \<Rightarrow> equation \<Rightarrow> error + real" where
  "residual_of b c (ReactionBalance fluid) = reaction_balance b c fluid"
| "residual_of b c EnergyBalance = energy_balance b c"
| "residual_of b c TiPChar = tiP_char_func c"
| "residual_of b c Q1Char = Q1_char_func c"
| "residual_of b c Q2Char = Q2_char_func c"
| "residual_of b c QlossChar = Qloss_char_func c"
| "residual_of b c LambTarget = lambda_func b c"
| "residual_of b c TiTarget = ti_func b c"
| "residual_of b c Q1Target = Q1_func c"
| "residual_of b c Q2Target = Q2_func c"
| "residual_of b c Pr1Target =
     Inr (val (pr1 c) * p_val_SI (inl c ! 0) - p_val_SI (outl c ! 0))"
| "residual_of b c Pr2Target =
     Inr (val (pr2 c) * p_val_SI (inl c ! 1) - p_val_SI (outl c ! 1))"
| "residual_of b c Zeta1Target = zeta_func b c ''zeta1'' 0 0"
| "residual_of b c Zeta2Target = zeta_func b c ''zeta2'' 1 1"

text \<open>
  The blocks that the source writes with the condition of the selective evaluation: the
  reaction balance, the energy balance, the characteristic lines and the two \<^verbatim>\<open>zeta\<close>
  equations. The blocks of \<^verbatim>\<open>lamb\<close>, \<^verbatim>\<open>ti\<close>, \<^verbatim>\<open>Q1\<close>, \<^verbatim>\<open>Q2\<close>, \<^verbatim>\<open>pr1\<close> and
  \<^verbatim>\<open>pr2\<close> have none.
\<close>

fun guarded :: "equation \<Rightarrow> bool" where
  "guarded LambTarget = False"
| "guarded TiTarget = False"
| "guarded Q1Target = False"
| "guarded Q2Target = False"
| "guarded Pr1Target = False"
| "guarded Pr2Target = False"
| "guarded eq = True"

text \<open>
  The equations in the order of the method: one reaction balance for every key of
  \<^verbatim>\<open>self.inl[0].fluid.val\<close>, the five mandatory equations, and the equation of every
  parameter that is set.
\<close>

definition equation_rows :: "engine \<Rightarrow> equation list" where
  "equation_rows c =
     map ReactionBalance (map fst (fluid_val (inl c ! 0))) @
     [EnergyBalance, TiPChar, Q1Char, Q2Char, QlossChar] @
     (if is_set (lamb c) then [LambTarget] else []) @
     (if is_set (ti c) then [TiTarget] else []) @
     (if is_set (Q1 c) then [Q1Target] else []) @
     (if is_set (Q2 c) then [Q2Target] else []) @
     (if is_set (pr1 c) then [Pr1Target] else []) @
     (if is_set (pr2 c) then [Pr2Target] else []) @
     (if is_set (zeta1 c) then [Zeta1Target] else []) @
     (if is_set (zeta2 c) then [Zeta2Target] else [])"

definition equation_row :: "base \<Rightarrow> engine \<Rightarrow> equation \<Rightarrow> rstate \<Rightarrow> rstate \<times> error option" where
  "equation_row b c eq =
     (if guarded eq then guarded_row b c (residual_of b c eq) else plain_row (residual_of b c eq))"

text \<open>
  The constant blocks at the head of the method: the fluid balance of the cooling loops
  in \<^verbatim>\<open>residual[k:num_nw_fluids * 2]\<close>, the mass flow balance in
  \<^verbatim>\<open>residual[k:k + 3]\<close>, and the two pressure equations.
\<close>

definition structural_rows :: "engine \<Rightarrow> (rstate \<Rightarrow> rstate \<times> error option) list" where
  "structural_rows c =
     [\<lambda>(k, r). case bindE (fluid_func c) (\<lambda>vs. set_slice k (num_nw_fluids c * 2) vs r) of
          Inl e \<Rightarrow> ((k, r), Some e)
        | Inr r' \<Rightarrow> ((k + num_nw_fluids c * 2, r'), None),
      \<lambda>(k, r). case set_slice k (k + 3) (mass_flow_func (inl c) (outl c)) r of
          Inl e \<Rightarrow> ((k, r), Some e)
        | Inr r' \<Rightarrow> ((k + 3, r'), None),
      plain_row (Inr (p_val_SI (inl c ! 2) - p_val_SI (outl c ! 2))),
      plain_row (Inr (p_val_SI (inl c ! 2) - p_val_SI (inl c ! 3)))]"

text \<open>\<^verbatim>\<open>equations\<close>: the engine with its new residual vector, and the exception if any.\<close>

definition equations :: "base \<Rightarrow> engine \<Rightarrow> engine \<times> error option" where
  "equations b c =
     (case run (structural_rows c @ map (equation_row b c) (equation_rows c)) (0, residual c) of
        ((k, r), e) \<Rightarrow> (c\<lparr>residual := r\<rparr>, e))"

section \<open>Derivatives\<close>

text \<open>
  The statements of \<^verbatim>\<open>derivatives\<close> are assignments to a cell
  \<^verbatim>\<open>self.jacobian[k, i, j]\<close> or to the composition entries
  \<^verbatim>\<open>self.jacobian[k, i, 3:]\<close> of a row; the lookup of a fuel in the energy balance can
  raise before it assigns. The method changes the Jacobian in place, so an exception
  leaves the assignments made before it.
\<close>

datatype assign = Cell nat nat nat ndval | Tail nat nat ndval | Raise error

fun apply_assign :: "assign \<Rightarrow> ndarray3 \<Rightarrow> error + ndarray3" where
  "apply_assign (Cell k i j v) a = setcell k i j v a"
| "apply_assign (Tail k i v) a = settail k i v a"
| "apply_assign (Raise e) a = Inl e"

fun run_assigns :: "assign list \<Rightarrow> ndarray3 \<Rightarrow> ndarray3 \<times> error option" where
  "run_assigns [] a = (a, None)"
| "run_assigns (w # ws) a =
     (case apply_assign w a of Inl e \<Rightarrow> (a, Some e) | Inr a' \<Rightarrow> run_assigns ws a')"

text \<open>\<^verbatim>\<open>list.index\<close> raises a ValueError for a value that is not in the list.\<close>

fun index_of :: "string list \<Rightarrow> string \<Rightarrow> error + nat" where
  "index_of [] x = Inl (ValueError (x @ '' is not in list''))"
| "index_of (y # ys) x = (if y = x then Inr 0 else bindE (index_of ys x) (\<lambda>n. Inr (n + 1)))"

text \<open>
  \<^verbatim>\<open>increment_filter\<close> is the driver's array of flags, by port or variable and by
  network variable; \<^verbatim>\<open>all(increment_filter[i, 3:])\<close> ranges over the composition.
\<close>

definition all_fluid :: "engine \<Rightarrow> (nat \<Rightarrow> nat \<Rightarrow> bool) \<Rightarrow> nat \<Rightarrow> bool" where
  "all_fluid c inc i = list_all (inc i) [3..<num_nw_vars c]"

text \<open>
  The pair of statements that most blocks repeat for a combustion port \<open>i\<close>: the
  derivative by the mass flow unless \<^verbatim>\<open>increment_filter[i, 0]\<close>, and the derivative by
  the composition unless all of \<^verbatim>\<open>increment_filter[i, 3:]\<close>.
\<close>

definition mass_and_fluid :: "base \<Rightarrow> engine \<Rightarrow> (nat \<Rightarrow> nat \<Rightarrow> bool) \<Rightarrow> (engine \<Rightarrow> error + real) \<Rightarrow> nat \<Rightarrow> nat \<Rightarrow> assign list" where
  "mass_and_fluid b c inc f k i =
     (if \<not> inc i 0 then [Cell k i 0 (numeric_deriv b f ''m'' i c)] else []) @
     (if \<not> all_fluid c inc i then [Tail k i (numeric_deriv b f ''fluid'' i c)] else [])"

definition variable_P :: "base \<Rightarrow> engine \<Rightarrow> (engine \<Rightarrow> error + real) \<Rightarrow> nat \<Rightarrow> assign list" where
  "variable_P b c f k =
     (if is_var (P c) then [Cell k (7 + var_pos (P c)) 0 (numeric_deriv b f ''P'' 7 c)] else [])"

definition variable_Qloss :: "base \<Rightarrow> engine \<Rightarrow> (engine \<Rightarrow> error + real) \<Rightarrow> nat \<Rightarrow> assign list" where
  "variable_Qloss b c f k =
     (if is_var (Qloss c)
      then [Cell k (7 + var_pos (Qloss c)) 0 (numeric_deriv b f ''Qloss'' 7 c)] else [])"

text \<open>The reaction balance of one fluid, in the row \<open>k\<close>.\<close>

definition reaction_block :: "base \<Rightarrow> engine \<Rightarrow> (nat \<Rightarrow> nat \<Rightarrow> bool) \<Rightarrow> string \<Rightarrow> nat \<Rightarrow> assign list" where
  "reaction_block b c inc fluid k =
     concat (map (\<lambda>i.
        (if \<not> inc i 0 then [Cell k i 0 (rb_numeric_deriv b ''m'' i fluid c)] else []) @
        (if \<not> all_fluid c inc i then [Tail k i (rb_numeric_deriv b ''fluid'' i fluid c)]
         else [])) [2, 3, 6])"

text \<open>The energy balance, in the row \<open>k\<close>.\<close>

definition energy_block :: "base \<Rightarrow> engine \<Rightarrow> (nat \<Rightarrow> nat \<Rightarrow> bool) \<Rightarrow> nat \<Rightarrow> assign list" where
  "energy_block b c inc k =
     (let f = energy_balance b in
      map (\<lambda>i. Cell k i 0 (Scalar (- (h_val_SI (outl c ! i) - h_val_SI (inl c ! i))))) [0, 1] @
      concat (map (\<lambda>i.
        (if \<not> inc i 0 then [Cell k i 0 (numeric_deriv b f ''m'' i c)] else []) @
        (if \<not> inc i 1 then [Cell k i 1 (numeric_deriv b f ''p'' i c)] else [])) [2, 3, 6]) @
      map (\<lambda>i. Cell k i 2 (Scalar (m_val_SI (inl c ! i)))) [0..<4] @
      map (\<lambda>i. Cell k (i + 4) 2 (Scalar (- m_val_SI (outl c ! i)))) [0..<3] @
      concat (map (\<lambda>fl.
        case bindE (index_of (nw_fluids c) fl) (\<lambda>n.
             bindE (getitem (fuels c) fl) (\<lambda>fu. Inr (3 + n, fuel_LHV fu))) of
          Inl e \<Rightarrow> [Raise e]
        | Inr (pos, lhv) \<Rightarrow>
            [Cell k 2 pos (Scalar (m_val_SI (inl c ! 2) * lhv)),
             Cell k 3 pos (Scalar (m_val_SI (inl c ! 3) * lhv)),
             Cell k 6 pos (Scalar (- m_val_SI (outl c ! 2) * lhv))]) (fuel_list c)) @
      variable_P b c f k @
      variable_Qloss b c f k)"

text \<open>The characteristic lines, in the row \<open>k\<close>.\<close>

definition tiP_char_block :: "base \<Rightarrow> engine \<Rightarrow> (nat \<Rightarrow> nat \<Rightarrow> bool) \<Rightarrow> nat \<Rightarrow> assign list" where
  "tiP_char_block b c inc k =
     concat (map (mass_and_fluid b c inc tiP_char_func k) [2, 3, 6]) @
     variable_P b c tiP_char_func k"

definition Q_char_block :: "base \<Rightarrow> engine \<Rightarrow> (nat \<Rightarrow> nat \<Rightarrow> bool) \<Rightarrow> (engine \<Rightarrow> error + real) \<Rightarrow> nat \<Rightarrow> nat \<Rightarrow> assign list" where
  "Q_char_block b c inc f loop k =
     (if \<not> inc loop 0 then [Cell k loop 0 (numeric_deriv b f ''m'' loop c)] else []) @
     (if \<not> inc loop 2 then [Cell k loop 2 (numeric_deriv b f ''h'' loop c)] else []) @
     (if \<not> inc (loop + 4) 2
      then [Cell k (loop + 4) 2 (numeric_deriv b f ''h'' (loop + 4) c)] else []) @
     concat (map (mass_and_fluid b c inc f k) [2, 3, 6]) @
     variable_P b c f k"

definition Qloss_char_block :: "base \<Rightarrow> engine \<Rightarrow> (nat \<Rightarrow> nat \<Rightarrow> bool) \<Rightarrow> nat \<Rightarrow> assign list" where
  "Qloss_char_block b c inc k =
     concat (map (mass_and_fluid b c inc Qloss_char_func k) [2, 3, 6]) @
     variable_P b c Qloss_char_func k @
     variable_Qloss b c Qloss_char_func k"

text \<open>The equations of the parameters that are set, in the row \<open>k\<close>.\<close>

definition lamb_block :: "base \<Rightarrow> engine \<Rightarrow> (nat \<Rightarrow> nat \<Rightarrow> bool) \<Rightarrow> nat \<Rightarrow> assign list" where
  "lamb_block b c inc k = concat (map (mass_and_fluid b c inc (lambda_func b) k) [2, 3])"

definition ti_block :: "base \<Rightarrow> engine \<Rightarrow> nat \<Rightarrow> assign list" where
  "ti_block b c k =
     concat (map (\<lambda>i. [Cell k i 0 (numeric_deriv b (ti_func b) ''m'' i c),
                        Tail k i (numeric_deriv b (ti_func b) ''fluid'' i c)]) [2, 3, 6])"

definition Q_block :: "engine \<Rightarrow> nat \<Rightarrow> nat \<Rightarrow> assign list" where
  "Q_block c loop k =
     [Cell k loop 0 (Scalar (h_val_SI (outl c ! loop) - h_val_SI (inl c ! loop))),
      Cell k loop 2 (Scalar (- m_val_SI (inl c ! loop))),
      Cell k (loop + 4) 2 (Scalar (m_val_SI (inl c ! loop)))]"

definition pr_block :: "dc_cp \<Rightarrow> nat \<Rightarrow> nat \<Rightarrow> assign list" where
  "pr_block pr loop k = [Cell k loop 1 (Scalar (val pr)), Cell k (loop + 4) 1 (Scalar (- 1))]"

definition zeta_block :: "base \<Rightarrow> engine \<Rightarrow> (nat \<Rightarrow> nat \<Rightarrow> bool) \<Rightarrow> string \<Rightarrow> nat \<Rightarrow> nat \<Rightarrow> assign list" where
  "zeta_block b c inc zeta loop k =
     (let f = (\<lambda>c. zeta_func b c zeta loop loop) in
      (if \<not> inc loop 0 then [Cell k loop 0 (numeric_deriv b f ''m'' loop c)] else []) @
      (if \<not> inc loop 1 then [Cell k loop 1 (numeric_deriv b f ''p'' loop c)] else []) @
      (if \<not> inc loop 2 then [Cell k loop 2 (numeric_deriv b f ''h'' loop c)] else []) @
      (if \<not> inc (loop + 4) 1
       then [Cell k (loop + 4) 1 (numeric_deriv b f ''p'' (loop + 4) c)] else []) @
      (if \<not> inc (loop + 4) 2
       then [Cell k (loop + 4) 2 (numeric_deriv b f ''h'' (loop + 4) c)] else []))"

text \<open>
  The blocks in the order of the method. Each takes the row \<open>k\<close> at which the method
  has arrived: one row for every fluid of \<^verbatim>\<open>self.nw_fluids\<close>, five rows for the
  mandatory equations, and one row for every parameter that is set.
\<close>

definition derivative_blocks :: "base \<Rightarrow> engine \<Rightarrow> (nat \<Rightarrow> nat \<Rightarrow> bool) \<Rightarrow> (nat \<Rightarrow> assign list) list" where
  "derivative_blocks b c inc =
     map (reaction_block b c inc) (nw_fluids c) @
     [energy_block b c inc,
      tiP_char_block b c inc,
      Q_char_block b c inc Q1_char_func 0,
      Q_char_block b c inc Q2_char_func 1,
      Qloss_char_block b c inc] @
     (if is_set (lamb c) then [lamb_block b c inc] else []) @
     (if is_set (ti c) then [ti_block b c] else []) @
     (if is_set (Q1 c) then [Q_block c 0] else []) @
     (if is_set (Q2 c) then [Q_block c 1] else []) @
     (if is_set (pr1 c) then [pr_block (pr1 c) 0] else []) @
     (if is_set (pr2 c) then [pr_block (pr2 c) 1] else []) @
     (if is_set (zeta1 c) then [zeta_block b c inc ''zeta1'' 0] else []) @
     (if is_set (zeta2 c) then [zeta_block b c inc ''zeta2'' 1] else [])"

text \<open>
  \<^verbatim>\<open>derivatives\<close>: the counter starts at \<^verbatim>\<open>k = self.num_nw_fluids * 2 + 5\<close> and
  every block adds one. The result is the Jacobian after the call and the exception, if
  one was raised.
\<close>

definition derivative_assigns :: "base \<Rightarrow> engine \<Rightarrow> (nat \<Rightarrow> nat \<Rightarrow> bool) \<Rightarrow> assign list" where
  "derivative_assigns b c inc =
     concat (map (\<lambda>(k, block). block k)
       (enumerate (num_nw_fluids c * 2 + 5) (derivative_blocks b c inc)))"

definition derivatives :: "base \<Rightarrow> engine \<Rightarrow> (nat \<Rightarrow> nat \<Rightarrow> bool) \<Rightarrow> ndarray3 \<times> error option" where
  "derivatives b c inc = run_assigns (derivative_assigns b c inc) (jacobian c)"

text \<open>
  A solve calls \<^verbatim>\<open>derivatives\<close> once in every iteration, each time with the state of
  the engine and the filter of that iteration, on the Jacobian that the call before has
  left.
\<close>

definition iterations :: "base \<Rightarrow> (engine \<times> (nat \<Rightarrow> nat \<Rightarrow> bool)) list \<Rightarrow> ndarray3 \<Rightarrow> ndarray3" where
  "iterations b calls a =
     fold (\<lambda>(c, inc) a. fst (derivatives b (c\<lparr>jacobian := a\<rparr>) inc)) calls a"

text \<open>The row of an assignment is the row \<open>k\<close>; a statement that raises has none.\<close>

fun in_row :: "nat \<Rightarrow> assign \<Rightarrow> bool" where
  "in_row k (Cell k' i j v) = (k' = k)"
| "in_row k (Tail k' i v) = (k' = k)"
| "in_row k (Raise e) = True"

section \<open>A concrete engine\<close>

text \<open>
  The engine of the module's documentation, reduced to the numbers the theorems are
  evaluated on: cooling water at the ports 1 and 2, air at \<^verbatim>\<open>in3\<close>, methane at
  \<^verbatim>\<open>in4\<close>, flue gas at \<^verbatim>\<open>out3\<close>.
\<close>

definition demo_fluids :: "string list" where
  "demo_fluids = [''N2'', ''O2'', ''CO2'', ''H2O'', ''CH4'']"

definition water :: "real fluid" where
  "water = [(''N2'', 0), (''O2'', 0), (''CO2'', 0), (''H2O'', 1), (''CH4'', 0)]"

definition air :: "real fluid" where
  "air = [(''N2'', 3 / 4), (''O2'', 1 / 4), (''CO2'', 0), (''H2O'', 0), (''CH4'', 0)]"

definition methane :: "real fluid" where
  "methane = [(''N2'', 0), (''O2'', 0), (''CO2'', 0), (''H2O'', 0), (''CH4'', 1)]"

definition flue_gas :: "real fluid" where
  "flue_gas = [(''N2'', 5 / 7), (''O2'', 1 / 21), (''CO2'', 11 / 84), (''H2O'', 3 / 28),
     (''CH4'', 0)]"

definition unset :: dc_cp where
  "unset = \<lparr>val = 0, design = None, is_set = False, is_var = False, var_pos = 0\<rparr>"

definition demo_engine :: engine where
  "demo_engine = \<lparr>
     label = ''internal combustion engine'',
     inl = [port 5 300000 250000 water, port 3 300000 250000 water,
            port 10 500000 300000 air, port (1 / 2) 500000 400000 methane],
     outl = [port 5 297000 290000 water, port 3 300000 270000 water,
             port (21 / 2) 500000 900000 flue_gas],
     lamb = unset\<lparr>val := 1, is_set := True\<rparr>,
     ti = unset,
     P = unset\<lparr>val := - 10000000, is_set := True\<rparr>,
     Q1 = unset,
     Q2 = unset,
     Qloss = unset\<lparr>val := - 100000\<rparr>,
     pr1 = unset\<lparr>val := 99 / 100, is_set := True\<rparr>,
     pr2 = unset,
     zeta1 = unset,
     zeta2 = unset,
     tiP_char = (\<lambda>x. 5 / 2),
     Q1_char = (\<lambda>x. 1 / 5),
     Q2_char = (\<lambda>x. 1 / 10),
     Qloss_char = (\<lambda>x. 1 / 20),
     nw_fluids = demo_fluids,
     num_nw_fluids = 5,
     num_nw_vars = 8,
     num_vars = 0,
     num_i = 4,
     num_o = 3,
     num_eq = 0,
     fuel_list = [''CH4''],
     fuels = [(''CH4'', \<lparr>fuel_C = 1, fuel_H = 4, fuel_LHV = 50000000\<rparr>)],
     co2 = ''CO2'',
     h2o = ''H2O'',
     n2 = ''N2'',
     o2 = ''O2'',
     it = 0,
     always_all_equations = False,
     residual = [],
     jacobian = \<lparr>shape = (0, 0, 0), cells = (\<lambda>k i j. 0)\<rparr>,
     logged = []\<rparr>"

definition demo_base :: base where
  "demo_base = \<lparr>
     h_mix_pT = (\<lambda>flow T force_gas. if force_gas then 1000 else 0),
     reaction_balance = (\<lambda>c f. Inr 1),
     lambda_func = (\<lambda>c. Inr 1),
     ti_func = (\<lambda>c. Inr 1),
     zeta_func = (\<lambda>c z i out. Inr 1),
     calc_bus_value = (\<lambda>p c. Inr 1),
     numeric_deriv = (\<lambda>f dx pos c.
        if dx = ''fluid'' then Vector (replicate (num_nw_fluids c) 2) else Scalar 3),
     rb_numeric_deriv = (\<lambda>dx pos f c.
        if dx = ''fluid'' then Vector (replicate (num_nw_fluids c) 4) else Scalar 5),
     molar_masses = [(''N2'', 28 / 1000), (''O2'', 32 / 1000), (''CO2'', 44 / 1000),
       (''H2O'', 18 / 1000), (''CH4'', 16 / 1000)],
     err = 1 / 1000000\<rparr>"


definition demo_off_design :: engine where
  "demo_off_design = demo_engine\<lparr>
     P := (P demo_engine)\<lparr>design := Some (- 8000000)\<rparr>,
     tiP_char := (\<lambda>x. 2 * x),
     Q1_char := (\<lambda>x. x / 5 - 1 / 20),
     Q2_char := (\<lambda>x. x / 10 - 1 / 40),
     Qloss_char := (\<lambda>x. x / 25)\<rparr>"


definition demo_network :: network where
  "demo_network = \<lparr>fluids = demo_fluids, nw_always_all_equations = False\<rparr>"

definition demo_reaction :: "engine \<Rightarrow> reaction_parameters" where
  "demo_reaction c = \<lparr>rp_fuel_list = [''CH4''],
     rp_fuels = [(''CH4'', \<lparr>fuel_C = 1, fuel_H = 4, fuel_LHV = 50000000\<rparr>)],
     rp_o2 = ''O2'', rp_co2 = ''CO2'', rp_h2o = ''H2O'', rp_n2 = ''N2''\<rparr>"

text \<open>
  The concrete engine as the component 0 of a network: the connections 0 to 3 are its
  inlets, the connections 4 to 6 its outlets, and every other component returns from the
  propagation at once, as a sink does. In the second network the fuel inlet carries air.
\<close>

definition demo_net :: net where
  "demo_net = \<lparr>
     conns = (\<lambda>i. if i < 4 then (inl demo_engine ! i)\<lparr>source := 1, target := 0\<rparr>
                    else (outl demo_engine ! (i - 4))\<lparr>source := 0, target := 1\<rparr>),
     comp_inl = (\<lambda>k. if k = 0 then [0, 1, 2, 3] else []),
     comp_outl = (\<lambda>k. if k = 0 then [4, 5, 6] else []),
     is_engine = (\<lambda>k. k = 0)\<rparr>"

definition demo_net_air :: net where
  "demo_net_air = demo_net\<lparr>conns := (conns demo_net)(3 := (conns demo_net 3)\<lparr>fluid_val := air\<rparr>)\<rparr>"

definition demo_others :: others where
  "demo_others = \<lparr>other_to_target = (\<lambda>next nw self inconn start. Inr nw),
                   other_to_source = (\<lambda>next nw self outconn start. Inr nw)\<rparr>"

text \<open>
  Two combustion engines, the components 2 and 3, whose first cooling loops form a ring:
  the connection 4 leaves the first outlet of the engine 2 and enters the first inlet of
  the engine 3, and the connection 5 leaves the first outlet of the engine 3 and enters
  the first inlet of the engine 2. The user has set the composition (water) on every
  connection. The other ports are joined to the component 0, which is not an engine.
\<close>

definition ring_conn :: "nat \<Rightarrow> nat \<Rightarrow> real connection" where
  "ring_conn s t = \<lparr>m_val_SI = 5, p_val_SI = 300000, h_val_SI = 250000, fluid_val = water,
     fluid_val_set = map (\<lambda>(k, _). (k, True)) water, good_starting_values = False,
     source = s, target = t\<rparr>"

definition ring :: net where
  "ring = \<lparr>
     conns = (\<lambda>i. if i = 4 then ring_conn 2 3 else if i = 5 then ring_conn 3 2
                    else ring_conn 0 0),
     comp_inl = (\<lambda>k. if k = 2 then [5, 10, 11, 12] else if k = 3 then [4, 13, 14, 15]
                    else []),
     comp_outl = (\<lambda>k. if k = 2 then [4, 6, 7] else if k = 3 then [5, 8, 9] else []),
     is_engine = (\<lambda>k. k = 2 \<or> k = 3)\<rparr>"

text \<open>
  The engine during an iteration that is not a multiple of four, with residuals of zero
  stored from the iteration before.
\<close>

definition demo_iteration :: engine where
  "demo_iteration = demo_engine\<lparr>num_eq := 27, it := 5, residual := replicate 27 0\<rparr>"

text \<open>
  Two calls of \<^verbatim>\<open>derivatives\<close> in consecutive iterations: the first with a filter that
  lets every derivative be computed, the second with one that skips all it can.
\<close>

definition demo_calls :: "(engine \<times> (nat \<Rightarrow> nat \<Rightarrow> bool)) list" where
  "demo_calls = [(demo_iteration, \<lambda>i j. False), (demo_iteration\<lparr>it := 6\<rparr>, \<lambda>i j. True)]"

section \<open>Theorems\<close>

subsection \<open>The binary64 literals of the scenario\<close>

lemma py_float_5: "py_float 5 = Finite 5"
  by code_simp

lemma py_float_3: "py_float 3 = Finite 3"
  by code_simp

lemma py_float_02: "py_float (2 / 10) = Finite (3602879701896397 / 2 ^ 54)"
  by code_simp

lemma py_float_01: "py_float (1 / 10) = Finite (3602879701896397 / 2 ^ 55)"
  by code_simp

lemma py_float_03: "py_float (3 / 10) = Finite (5404319552844595 / 2 ^ 54)"
  by code_simp

lemma f64_sum_02_01:
  "py_float (2 / 10) + py_float (1 / 10) = Finite (5404319552844596 / 2 ^ 54)"
  by code_simp

subsection \<open>C9: the mass flow scenario\<close>

lemma mass_flow_func_exact_scenario:
  "mass_flow_func scenario_inl_exact scenario_outl_exact = [0, 0, 0]"
  by (simp add: mass_flow_func_def scenario_inl_exact_def scenario_outl_exact_def port_def
      upt_rec)

text \<open>
  C9 (as stated): with \<^verbatim>\<open>in1.m=5, in2.m=3, in3.m=0.2, in4.m=0.1\<close> and
  \<^verbatim>\<open>out1.m=5, out2.m=3, out3.m=0.3\<close> the residuals of \<^verbatim>\<open>mass_flow_func\<close> are exactly
  \<^verbatim>\<open>[0, 0, 0]\<close>. On the binary64 numbers the code computes with this is false: the sum
  \<^verbatim>\<open>0.2 + 0.1\<close> rounds up to the neighbour of \<^verbatim>\<open>0.3\<close>.
\<close>

theorem mass_flow_func_scenario_counterexample:
  "mass_flow_func scenario_inl scenario_outl \<noteq> [Finite 0, Finite 0, Finite 0]"
  by code_simp

text \<open>
  C9 (amended): in that scenario the first two residuals are exactly zero and the third
  is \<open>2 ^ -54\<close> (about \<^verbatim>\<open>5.55e-17\<close>), one rounding error of the binary64 sum.
\<close>

theorem mass_flow_func_scenario:
  "mass_flow_func scenario_inl scenario_outl = [Finite 0, Finite 0, Finite (1 / 2 ^ 54)]"
  by code_simp

subsection \<open>Lists of ports\<close>

lemma list4: "length xs = 4 \<Longrightarrow> \<exists>a b c d. xs = [a, b, c, d]"
  by (auto simp: length_Suc_conv numeral_eq_Suc)

lemma list3: "length xs = 3 \<Longrightarrow> \<exists>a b c. xs = [a, b, c]"
  by (auto simp: length_Suc_conv numeral_eq_Suc)

lemma drop2_of_4: "length xs = 4 \<Longrightarrow> drop 2 xs = [xs ! 2, xs ! 3]"
  by (auto dest!: list4)

lemma drop2_of_3: "length xs = 3 \<Longrightarrow> drop 2 xs = [xs ! 2]"
  by (auto dest!: list3)

subsection \<open>Running a function that may raise\<close>

lemma bindE_Inr [simp]: "bindE (Inr x) f = f x"
  by (simp add: bindE_def)

lemma bindE_Inl [simp]: "bindE (Inl e) f = Inl e"
  by (simp add: bindE_def)

lemma getitem_Inr: "k \<in> fst ` set d \<Longrightarrow> getitem d k = Inr (the (map_of d k))"
  by (auto simp: getitem_def map_of_eq_None_iff split: option.splits)

lemma foldE_sum:
  assumes "\<And>f t. f \<in> set fl \<Longrightarrow> step f t = Inr (t + g f)"
  shows "foldE step fl t = Inr (t + (\<Sum>f\<leftarrow>fl. g f))"
  using assms by (induction fl arbitrary: t) (simp_all add: add.assoc)

subsection \<open>The concrete engine is well formed\<close>

lemmas demo_defs = demo_engine_def demo_base_def port_def water_def air_def methane_def
  flue_gas_def unset_def demo_fluids_def

lemma demo_ports_ok: "ports_ok demo_engine"
  by (simp add: ports_ok_def demo_defs)

lemma demo_fuels_ok: "fuels_ok demo_engine"
  by (simp add: fuels_ok_def demo_defs)

subsection \<open>Thermal input\<close>

lemma calc_ti_eq:
  assumes "ports_ok c" and "fuels_ok c"
  shows "calc_ti c = Inr (spec_thermal_input c)"
proof -
  have i: "drop 2 (inl c) = [inl c ! 2, inl c ! 3]" and o: "drop 2 (outl c) = [outl c ! 2]"
    using assms(1) by (simp_all add: ports_ok_def drop2_of_4 drop2_of_3)
  have keys: "f \<in> fst ` set (fuels c)" "f \<in> fst ` set (fluid_val (inl c ! 2))"
    "f \<in> fst ` set (fluid_val (inl c ! 3))" "f \<in> fst ` set (fluid_val (outl c ! 2))"
    if "f \<in> set (fuel_list c)" for f
    using assms(2) that by (simp_all add: fuels_ok_def i o list_all_iff)
  show ?thesis
    unfolding calc_ti_def spec_thermal_input_def i o
    by (subst foldE_sum [where g = "\<lambda>f. fuel_LHV (the (map_of (fuels c) f)) *
        (m_val_SI (inl c ! 2) * fraction (inl c ! 2) f +
         m_val_SI (inl c ! 3) * fraction (inl c ! 3) f -
         m_val_SI (outl c ! 2) * fraction (outl c ! 2) f)"])
       (simp_all add: keys getitem_Inr fraction_def algebra_simps)
qed

lemma demo_thermal_input: "spec_thermal_input demo_engine = 25000000"
  by (simp add: spec_thermal_input_def fraction_def demo_defs)

lemma load_expr_eq: "design (P c) \<noteq> Some 0 \<Longrightarrow> load_expr c = Inr (spec_load_ratio c)"
  by (auto simp: load_expr_def spec_load_ratio_def py_div_def split: option.splits)

subsection \<open>C1: the energy balance\<close>

text \<open>
  C1: for an engine with its four inlets and three outlets whose combustion ports carry
  every fuel of \<^verbatim>\<open>fuel_list\<close>, and for every state of the ports and of \<^verbatim>\<open>P\<close> and
  \<^verbatim>\<open>Qloss\<close>, \<^verbatim>\<open>energy_balance\<close> returns the sum over \<^verbatim>\<open>in3\<close> and \<^verbatim>\<open>in4\<close> of
  \<open>m (h - h_ref)\<close>, minus \<open>m (h - h_ref)\<close> of \<^verbatim>\<open>out3\<close>, plus the thermal input, minus
  \<open>m (h_out - h_in)\<close> of each of the two cooling loops, plus \<^verbatim>\<open>P\<close> plus \<^verbatim>\<open>Qloss\<close>.
  The reference enthalpy of a port is the mixture enthalpy of its composition at
  298.15 K and \<open>10\<^sup>5\<close> Pa with the gas phase forced.
\<close>

theorem energy_balance_residual:
  assumes "ports_ok c" and "fuels_ok c"
  shows "energy_balance b c = Inr (
      (\<Sum>i\<leftarrow>[inl c ! 2, inl c ! 3]. m_val_SI i * (h_val_SI i - h_ref b i))
      - m_val_SI (outl c ! 2) * (h_val_SI (outl c ! 2) - h_ref b (outl c ! 2))
      + spec_thermal_input c
      - (\<Sum>i\<leftarrow>[0, 1]. m_val_SI (inl c ! i) * (h_val_SI (outl c ! i) - h_val_SI (inl c ! i)))
      + val (P c) + val (Qloss c))"
proof -
  have i: "drop 2 (inl c) = [inl c ! 2, inl c ! 3]" and o: "drop 2 (outl c) = [outl c ! 2]"
    using assms(1) by (simp_all add: ports_ok_def drop2_of_4 drop2_of_3)
  show ?thesis
    by (simp add: energy_balance_def calc_ti_eq [OF assms] i o Let_def h_ref_def T_ref_def
        p_ref_def upt_rec)
qed

theorem energy_balance_residual_witness:
  "ports_ok demo_engine \<and> fuels_ok demo_engine \<and>
   energy_balance demo_base demo_engine = Inr 8390000"
  using energy_balance_residual [OF demo_ports_ok demo_fuels_ok, of demo_base]
  by (simp add: demo_ports_ok demo_fuels_ok demo_thermal_input)
     (simp add: h_ref_def demo_defs)

subsection \<open>C2: the characteristic couplings\<close>

text \<open>
  C2: with the load ratio \<^verbatim>\<open>P / P_design\<close> when \<^verbatim>\<open>P\<close> has a design value (which is
  then not zero) and 1 otherwise, \<^verbatim>\<open>tiP_char_func\<close> returns the thermal input plus
  \<open>curve_TI(load_ratio) * P\<close>; \<^verbatim>\<open>Q1_char_func\<close> and \<^verbatim>\<open>Q2_char_func\<close> return the
  thermal input times \<open>curve_Qi(load_ratio)\<close> minus \<open>curve_TI(load_ratio)\<close> times
  \<open>m (h_out - h_in)\<close> of the loop; and \<^verbatim>\<open>Qloss_char_func\<close> returns the thermal input
  times \<open>curve_Qloss(load_ratio)\<close> plus \<open>curve_TI(load_ratio) * Qloss\<close>.
\<close>

theorem char_func_residuals:
  assumes "ports_ok c" and "fuels_ok c" and "design (P c) \<noteq> Some 0"
  shows "tiP_char_func c =
           Inr (spec_thermal_input c + tiP_char c (spec_load_ratio c) * val (P c)) \<and>
         Q1_char_func c =
           Inr (spec_thermal_input c * Q1_char c (spec_load_ratio c) -
                tiP_char c (spec_load_ratio c) *
                  (m_val_SI (inl c ! 0) * (h_val_SI (outl c ! 0) - h_val_SI (inl c ! 0)))) \<and>
         Q2_char_func c =
           Inr (spec_thermal_input c * Q2_char c (spec_load_ratio c) -
                tiP_char c (spec_load_ratio c) *
                  (m_val_SI (inl c ! 1) * (h_val_SI (outl c ! 1) - h_val_SI (inl c ! 1)))) \<and>
         Qloss_char_func c =
           Inr (spec_thermal_input c * Qloss_char c (spec_load_ratio c) +
                tiP_char c (spec_load_ratio c) * val (Qloss c))"
  by (simp add: tiP_char_func_def Q1_char_func_def Q2_char_func_def Qloss_char_func_def
      load_expr_eq [OF assms(3)] calc_ti_eq [OF assms(1,2)] Let_def)

text \<open>
  The witness runs the engine with a recorded design power of \<open>-8\<close> MW, that is at the
  load ratio \<open>5/4\<close>, on characteristic lines that depend on the load ratio.
\<close>

theorem char_func_residuals_witness:
  "ports_ok demo_off_design \<and> fuels_ok demo_off_design \<and>
   design (P demo_off_design) \<noteq> Some 0 \<and>
   spec_load_ratio demo_off_design = 5 / 4 \<and>
   tiP_char_func demo_off_design = Inr 0 \<and>
   Q1_char_func demo_off_design = Inr 4500000 \<and>
   Q2_char_func demo_off_design = Inr 2350000 \<and>
   Qloss_char_func demo_off_design = Inr 1000000"
proof -
  have ok: "ports_ok demo_off_design" "fuels_ok demo_off_design"
    "design (P demo_off_design) \<noteq> Some 0"
    using demo_ports_ok demo_fuels_ok
    by (simp_all add: demo_off_design_def ports_ok_def fuels_ok_def)
  have t: "spec_thermal_input demo_off_design = 25000000"
    using demo_thermal_input by (simp add: demo_off_design_def spec_thermal_input_def)
  have r: "spec_load_ratio demo_off_design = 5 / 4"
    by (simp add: spec_load_ratio_def demo_off_design_def demo_defs)
  show ?thesis
    using char_func_residuals [OF ok]
    by (simp add: ok t r) (simp add: demo_off_design_def demo_defs)
qed

subsection \<open>Which exceptions a function can raise\<close>

lemma bindE_InlD: "bindE r f = Inl e \<Longrightarrow> r = Inl e \<or> (\<exists>x. r = Inr x \<and> f x = Inl e)"
  by (cases r) simp_all

lemma foldE_InlD:
  "foldE f xs s = Inl e \<Longrightarrow> \<exists>x s'. x \<in> set xs \<and> f x s' = Inl e"
proof (induction xs arbitrary: s)
  case Nil
  then show ?case by simp
next
  case (Cons x xs)
  from Cons.prems have "f x s = Inl e \<or> (\<exists>s'. f x s = Inr s' \<and> foldE f xs s' = Inl e)"
    by (auto dest: bindE_InlD)
  then show ?case
  proof
    assume "f x s = Inl e"
    then show ?thesis by auto
  next
    assume "\<exists>s'. f x s = Inr s' \<and> foldE f xs s' = Inl e"
    then obtain s' where "foldE f xs s' = Inl e" by blast
    from Cons.IH [OF this] obtain y t where "y \<in> set xs" "f y t = Inl e" by blast
    then show ?thesis by auto
  qed
qed

lemma setcell_error: "setcell k i j v a = Inl e \<Longrightarrow> array_error e"
  by (auto simp: setcell_def array_error_def Let_def split: prod.splits if_splits ndval.splits)

lemma settail_error: "settail k i v a = Inl e \<Longrightarrow> array_error e"
  by (auto simp: settail_def array_error_def Let_def split: prod.splits if_splits ndval.splits)

lemma invalid_bus_msg_not_array_error: "\<not> array_error (ValueError (invalid_bus_msg p))"
  by (simp add: array_error_def invalid_bus_msg_def sequence_msg_def broadcast_msg_def)

lemma bus_deriv_error:
  assumes "param \<in> set bus_params" and "fst (bus_deriv b c param) = Inl e"
  shows "array_error e"
proof -
  have comb: "array_error e'"
    if "foldE (\<lambda>i d. bindE (setcell 0 i 0 (numeric_deriv b f ''m'' i c) d)
               (settail 0 i (numeric_deriv b f ''fluid'' i c))) [2, 3, 6] d0 = Inl e'"
    for f d0 e'
    using that by (auto dest!: foldE_InlD bindE_InlD dest: setcell_error settail_error)
  show ?thesis
    using assms
    by (auto simp: bus_deriv_def bus_params_def Let_def split: if_splits
        dest!: foldE_InlD bindE_InlD dest: setcell_error settail_error comb)
qed

lemma calc_P_eq:
  assumes "ports_ok c" "fuels_ok c" "design (P c) \<noteq> Some 0" "tiP_char c (spec_load_ratio c) \<noteq> 0"
  shows "calc_P c = Inr (- spec_thermal_input c / tiP_char c (spec_load_ratio c))"
  by (simp add: calc_P_def load_expr_eq assms calc_ti_eq py_div_def)

lemma calc_Qloss_eq:
  assumes "ports_ok c" "fuels_ok c" "design (P c) \<noteq> Some 0" "tiP_char c (spec_load_ratio c) \<noteq> 0"
  shows "calc_Qloss c = Inr (- spec_thermal_input c * Qloss_char c (spec_load_ratio c) /
     tiP_char c (spec_load_ratio c))"
  by (simp add: calc_Qloss_def load_expr_eq assms calc_ti_eq py_div_def)

lemma getitem_error: "getitem d k = Inl e \<Longrightarrow> e = KeyError k"
  by (auto simp: getitem_def split: option.splits)

lemma py_div_error: "py_div x y = Inl e \<Longrightarrow> e = ZeroDivisionError"
  by (auto simp: py_div_def split: if_splits)

lemma load_expr_error: "load_expr c = Inl e \<Longrightarrow> e = ZeroDivisionError"
  by (auto simp: load_expr_def split: option.splits dest: py_div_error)

lemma calc_ti_error: "calc_ti c = Inl e \<Longrightarrow> \<exists>k. e = KeyError k"
  unfolding calc_ti_def
  by (auto dest!: foldE_InlD bindE_InlD dest: getitem_error)

lemma bus_func_error:
  assumes "param \<in> set bus_params" and "fst (bus_func c param) = Inl e"
  shows "(\<exists>k. e = KeyError k) \<or> e = ZeroDivisionError"
  using assms
  by (auto simp: bus_func_def bus_params_def calc_P_def calc_Qloss_def split: if_splits
      dest!: bindE_InlD dest: calc_ti_error load_expr_error py_div_error)

subsection \<open>C6: the bus parameters\<close>

text \<open>
  C6: \<^verbatim>\<open>bus_func\<close> returns a number for the parameters \<^verbatim>\<open>TI\<close>, \<^verbatim>\<open>P\<close>, \<^verbatim>\<open>Q\<close>,
  \<^verbatim>\<open>Q1\<close>, \<^verbatim>\<open>Q2\<close> and \<^verbatim>\<open>Qloss\<close>: the thermal input, the power, the heat of both
  cooling loops, the heat of loop 1, the heat of loop 2 and the heat loss (on a well-formed
  engine whose characteristic line of the thermal input is not zero at the load ratio).
  For every other parameter \<^verbatim>\<open>bus_func\<close> and \<^verbatim>\<open>bus_deriv\<close> log the message and raise the
  ValueError of the invalid parameter at once, and neither raises it for one of the six.
\<close>

theorem bus_parameter:
  "(param \<in> set bus_params \<and> ports_ok c \<and> fuels_ok c \<and> design (P c) \<noteq> Some 0 \<and>
      tiP_char c (spec_load_ratio c) \<noteq> 0 \<longrightarrow>
      bus_func c param = (Inr (spec_bus_value c param), [])) \<and>
   (param \<notin> set bus_params \<longrightarrow>
      bus_func c param =
        (Inl (ValueError (invalid_bus_msg param)), [(ERROR, invalid_bus_msg param)]) \<and>
      bus_deriv b c param =
        (Inl (ValueError (invalid_bus_msg param)), [(ERROR, invalid_bus_msg param)])) \<and>
   (fst (bus_deriv b c param) = Inl (ValueError (invalid_bus_msg param))
      \<longleftrightarrow> param \<notin> set bus_params) \<and>
   (fst (bus_func c param) = Inl (ValueError (invalid_bus_msg param))
      \<longleftrightarrow> param \<notin> set bus_params)"
proof -
  have valid: "bus_func c param = (Inr (spec_bus_value c param), [])"
    if "param \<in> set bus_params" "ports_ok c" "fuels_ok c" "design (P c) \<noteq> Some 0"
      "tiP_char c (spec_load_ratio c) \<noteq> 0"
    using that
    by (auto simp: bus_func_def bus_params_def spec_bus_value_def loop_heat_def calc_ti_eq
        calc_P_eq calc_Qloss_eq upt_rec)
  have invalid: "bus_func c param =
        (Inl (ValueError (invalid_bus_msg param)), [(ERROR, invalid_bus_msg param)])"
     "bus_deriv b c param =
        (Inl (ValueError (invalid_bus_msg param)), [(ERROR, invalid_bus_msg param)])"
    if "param \<notin> set bus_params"
    using that by (simp_all add: bus_func_def bus_deriv_def bus_params_def Let_def)
  have deriv: "fst (bus_deriv b c param) \<noteq> Inl (ValueError (invalid_bus_msg param))"
    if "param \<in> set bus_params"
    using bus_deriv_error [OF that] invalid_bus_msg_not_array_error by blast
  have func: "fst (bus_func c param) \<noteq> Inl (ValueError (invalid_bus_msg param))"
    if "param \<in> set bus_params"
    using bus_func_error [OF that] by auto
  show ?thesis
    using valid invalid deriv func by auto
qed

theorem bus_parameter_witness:
  "bus_func demo_engine ''P'' = (Inr (- 10000000), []) \<and>
   bus_func demo_engine ''Q'' = (Inr (- 260000), []) \<and>
   fst (bus_deriv demo_base demo_engine ''P'') \<noteq>
     Inl (ValueError (invalid_bus_msg ''P'')) \<and>
   bus_func demo_engine ''Pel'' =
     (Inl (ValueError ''The parameter Pel is not a valid parameter for a combustion engine.''),
      [(ERROR, ''The parameter Pel is not a valid parameter for a combustion engine.'')]) \<and>
   bus_deriv demo_base demo_engine ''Pel'' =
     (Inl (ValueError ''The parameter Pel is not a valid parameter for a combustion engine.''),
      [(ERROR, ''The parameter Pel is not a valid parameter for a combustion engine.'')])"
proof -
  have r: "spec_load_ratio demo_engine = 1"
    by (simp add: spec_load_ratio_def demo_defs)
  have ok: "design (P demo_engine) \<noteq> Some 0" "tiP_char demo_engine 1 \<noteq> 0"
    by (simp_all add: demo_defs)
  have v: "spec_bus_value demo_engine ''P'' = - 10000000"
    "spec_bus_value demo_engine ''Q'' = - 260000"
    by (simp_all add: spec_bus_value_def demo_thermal_input r loop_heat_def)
       (simp_all add: demo_defs)
  show ?thesis
    using bus_parameter [of "''P''" demo_engine demo_base]
      bus_parameter [of "''Q''" demo_engine demo_base]
      bus_parameter [of "''Pel''" demo_engine demo_base]
    by (simp add: demo_ports_ok demo_fuels_ok r ok v bus_params_def invalid_bus_msg_def
        component_def)
qed

subsection \<open>Initialisation\<close>

lemma foldE_invariant:
  assumes "I s" and "\<And>x s. x \<in> set xs \<Longrightarrow> I s \<Longrightarrow> \<exists>s'. f x s = Inr s' \<and> I s'"
  shows "\<exists>s'. foldE f xs s = Inr s' \<and> I s'"
  using assms
proof (induction xs arbitrary: s)
  case Nil
  then show ?case by simp
next
  case (Cons x xs)
  from Cons.prems obtain s1 where s1: "f x s = Inr s1" "I s1"
    by (meson list.set_intros(1))
  have "\<exists>s'. foldE f xs s1 = Inr s' \<and> I s'"
    by (rule Cons.IH [OF s1(2)]) (simp add: Cons.prems(2))
  then show ?case
    by (simp add: s1(1))
qed

lemma setcell_Scalar:
  assumes "shape a = (nk, ni, nj)" "k < nk" "i < ni" "j < nj"
  shows "setcell k i j (Scalar x) a =
     Inr (a\<lparr>cells := (\<lambda>k' i' j'. if k' = k \<and> i' = i \<and> j' = j then x else cells a k' i' j')\<rparr>)"
  using assms by (simp add: setcell_def)

lemma setcell_shape:
  assumes "shape a = (nk, ni, nj)" "k < nk" "i < ni" "j < nj"
  shows "\<exists>a'. setcell k i j (Scalar x) a = Inr a' \<and> shape a' = (nk, ni, nj)"
  using assms by (simp add: setcell_def)

lemma fluid_deriv_ok:
  assumes "num_nw_vars c = num_nw_fluids c + 3"
  shows "\<exists>d. fluid_deriv c = Inr d \<and>
     shape d = (num_nw_fluids c * 2, 7 + num_vars c, num_nw_vars c)"
proof -
  let ?s = "(num_nw_fluids c * 2, 7 + num_vars c, num_nw_vars c)"
  let ?I = "\<lambda>d. shape d = ?s"
  have 1: "\<exists>d. foldE (\<lambda>i d. bindE (setcell i 0 (i + 3) (Scalar 1) d)
                              (setcell i 4 (i + 3) (Scalar (- 1))))
               [0..<num_nw_fluids c] (zeros3 ?s) = Inr d \<and> ?I d"
  proof (rule foldE_invariant)
    show "?I (zeros3 ?s)" by (simp add: zeros3_def)
  next
    fix x :: nat and s :: ndarray3 assume x: "x \<in> set [0..<num_nw_fluids c]" and s: "?I s"
    from setcell_shape [OF s, of x 0 "x + 3" 1] x assms
    obtain s1 where s1: "setcell x 0 (x + 3) (Scalar 1) s = Inr s1" "?I s1" by auto
    from setcell_shape [OF s1(2), of x 4 "x + 3" "- 1"] x assms
    obtain s2 where "setcell x 4 (x + 3) (Scalar (- 1)) s1 = Inr s2" "?I s2" by auto
    then show "\<exists>s'. bindE (setcell x 0 (x + 3) (Scalar 1) s)
                  (setcell x 4 (x + 3) (Scalar (- 1))) = Inr s' \<and> ?I s'"
      unfolding s1(1) by simp
  qed
  then obtain d1 where d1: "foldE (\<lambda>i d. bindE (setcell i 0 (i + 3) (Scalar 1) d)
                              (setcell i 4 (i + 3) (Scalar (- 1))))
               [0..<num_nw_fluids c] (zeros3 ?s) = Inr d1" "?I d1" by blast
  have 2: "\<exists>d. foldE (\<lambda>j d. bindE (setcell (num_nw_fluids c - 1 + 1 + j) 1 (j + 3) (Scalar 1) d)
                       (setcell (num_nw_fluids c - 1 + 1 + j) 5 (j + 3) (Scalar (- 1))))
         [0..<num_nw_fluids c] d1 = Inr d \<and> ?I d"
  proof (rule foldE_invariant)
    show "?I d1" by (rule d1)
  next
    fix x :: nat and s :: ndarray3 assume x: "x \<in> set [0..<num_nw_fluids c]" and s: "?I s"
    let ?k = "num_nw_fluids c - 1 + 1 + x"
    from setcell_shape [OF s, of ?k 1 "x + 3" 1] x assms
    obtain s1 where s1: "setcell ?k 1 (x + 3) (Scalar 1) s = Inr s1" "?I s1" by auto
    from setcell_shape [OF s1(2), of ?k 5 "x + 3" "- 1"] x assms
    obtain s2 where "setcell ?k 5 (x + 3) (Scalar (- 1)) s1 = Inr s2" "?I s2" by auto
    then show "\<exists>s'. bindE (setcell ?k 1 (x + 3) (Scalar 1) s)
                  (setcell ?k 5 (x + 3) (Scalar (- 1))) = Inr s' \<and> ?I s'"
      unfolding s1(1) by simp
  qed
  show ?thesis
    using 2 by (simp add: fluid_deriv_def Let_def d1)
qed

lemma mass_flow_deriv_ok:
  assumes "num_i c = 4" and "num_nw_vars c = num_nw_fluids c + 3"
  shows "\<exists>d. mass_flow_deriv c = Inr d \<and> shape d = (3, 7 + num_vars c, num_nw_vars c)"
  by (simp add: mass_flow_deriv_def Let_def zeros3_def setcell_def upt_rec assms)

lemma pressure_deriv_ok:
  assumes "num_nw_vars c = num_nw_fluids c + 3"
  shows "\<exists>d. pressure_deriv c = Inr d \<and> shape d = (2, 7 + num_vars c, num_nw_vars c)"
  by (simp add: pressure_deriv_def Let_def zeros3_def setcell_def upt_rec assms)

lemma set_rows_ok:
  assumes "shape a = (nk, ni, nj)" and "shape src = (hi - lo, ni, nj)" and "lo \<le> hi" and "hi \<le> nk"
  shows "set_rows lo hi src a =
     Inr (a\<lparr>cells := (\<lambda>k i j. if lo \<le> k \<and> k < hi then cells src (k - lo) i j
                               else cells a k i j)\<rparr>)"
proof -
  have m: "min hi nk = hi" "min lo hi = lo"
    using assms by simp_all
  have lt: "\<And>k. (k < hi \<and> k < nk) = (k < hi)"
    using assms(4) by auto
  show ?thesis
    by (simp add: set_rows_def Let_def assms(1,2) m lt cong: if_cong)
qed

lemma fold_num_eq:
  "fold (\<lambda>var n. if is_set var then n + 1 else n) vs (n::nat) = n + length (filter is_set vs)"
  by (induction vs arbitrary: n) simp_all

lemma assign_var_simps [simp]:
  "is_set (assign_var ps p) = is_set p"
  "is_var (assign_var ps p) = is_var p"
  "val (assign_var ps p) = val p"
  "design (assign_var ps p) = design p"
  by (simp_all add: assign_var_def)

lemma count_equations_eq:
  "count_equations c = c\<lparr>num_eq := num_nw_fluids c * 2 + 3 + 2 + num_nw_fluids c + 5 +
     length (filter is_set (optional_parameters c))\<rparr>"
  by (simp add: count_equations_def fold_num_eq)

lemma base_comp_init_simps [simp]:
  "num_nw_fluids (base_comp_init nw c) = length (fluids nw)"
  "num_nw_vars (base_comp_init nw c) = length (fluids nw) + 3"
  "num_i (base_comp_init nw c) = length (inl c)"
  "num_o (base_comp_init nw c) = length (outl c)"
  "inl (base_comp_init nw c) = inl c"
  "outl (base_comp_init nw c) = outl c"
  "logged (base_comp_init nw c) = logged c"
  "label (base_comp_init nw c) = label c"
  "map is_set (optional_parameters (base_comp_init nw c)) = map is_set (optional_parameters c)"
  "is_var (P (base_comp_init nw c)) = is_var (P c)"
  "is_var (Qloss (base_comp_init nw c)) = is_var (Qloss c)"
  "num_vars (base_comp_init nw c) = length (filter is_var (attr_parameters c))"
  by (simp_all add: base_comp_init_def Let_def optional_parameters_def)

lemma promote_mandatory_simps [simp]:
  "inl (promote_mandatory c) = inl c"
  "outl (promote_mandatory c) = outl c"
  "label (promote_mandatory c) = label c"
  "optional_parameters (promote_mandatory c) = optional_parameters c"
  "is_var (P (promote_mandatory c)) = (is_var (P c) \<or> \<not> is_set (P c))"
  "is_var (Qloss (promote_mandatory c)) = (is_var (Qloss c) \<or> \<not> is_set (Qloss c))"
  "logged (promote_mandatory c) = logged c @
     (if \<not> is_set (P c) then [(INFO, power_msg (label c))] else []) @
     (if \<not> is_set (Qloss c) then [(INFO, heat_loss_msg (label c))] else [])"
  by (simp_all add: promote_mandatory_def Let_def optional_parameters_def set_attr_var_def)

lemma promote_mandatory_vars:
  "length (filter is_var (attr_parameters (promote_mandatory c))) =
     length (filter is_var (attr_parameters c)) +
     (if \<not> is_set (P c) \<and> \<not> is_var (P c) then 1 else 0) +
     (if \<not> is_set (Qloss c) \<and> \<not> is_var (Qloss c) then 1 else 0)"
  by (simp add: promote_mandatory_def Let_def attr_parameters_def set_attr_var_def)

lemma filter_is_set_cong:
  "map is_set xs = map is_set ys \<Longrightarrow> length (filter is_set xs) = length (filter is_set ys)"
proof -
  assume "map is_set xs = map is_set ys"
  then have "length (filter id (map is_set xs)) = length (filter id (map is_set ys))" by simp
  then show ?thesis by (simp add: filter_map comp_def)
qed

lemma deriv_jacobian_update [simp]:
  "fluid_deriv (c\<lparr>jacobian := x\<rparr>) = fluid_deriv c"
  "mass_flow_deriv (c\<lparr>jacobian := x\<rparr>) = mass_flow_deriv c"
  "pressure_deriv (c\<lparr>jacobian := x\<rparr>) = pressure_deriv c"
  by (simp_all add: fluid_deriv_def mass_flow_deriv_def pressure_deriv_def)

lemma constant_blocks_ok:
  assumes sh: "shape (jacobian c) = (num_eq c, 7 + num_vars c, num_nw_vars c)"
    and nv: "num_nw_vars c = num_nw_fluids c + 3"
    and ni: "num_i c = 4"
    and ne: "num_nw_fluids c * 2 + 5 \<le> num_eq c"
  shows "\<exists>dF dM dP. fluid_deriv c = Inr dF \<and> mass_flow_deriv c = Inr dM \<and>
     pressure_deriv c = Inr dP \<and>
     constant_blocks c = Inr (c\<lparr>jacobian := blocks (num_nw_fluids c) dF dM dP (jacobian c)\<rparr>)"
proof -
  let ?F = "num_nw_fluids c"
  obtain dF where dF: "fluid_deriv c = Inr dF"
    "shape dF = (?F * 2, 7 + num_vars c, num_nw_vars c)"
    using fluid_deriv_ok [OF nv] by blast
  obtain dM where dM: "mass_flow_deriv c = Inr dM"
    "shape dM = (3, 7 + num_vars c, num_nw_vars c)"
    using mass_flow_deriv_ok [OF ni nv] by blast
  obtain dP where dP: "pressure_deriv c = Inr dP"
    "shape dP = (2, 7 + num_vars c, num_nw_vars c)"
    using pressure_deriv_ok [OF nv] by blast
  define j1 where "j1 = (jacobian c)\<lparr>cells := (\<lambda>k i j. if k < ?F * 2 then cells dF k i j
                               else cells (jacobian c) k i j)\<rparr>"
  have 1: "set_rows 0 (?F * 2) dF (jacobian c) = Inr j1"
    unfolding j1_def
    by (subst set_rows_ok [OF sh]) (use dF ne in \<open>simp_all cong: if_cong\<close>)
  have sh1: "shape j1 = (num_eq c, 7 + num_vars c, num_nw_vars c)"
    by (simp add: j1_def sh)
  define j2 where "j2 = j1\<lparr>cells := (\<lambda>k i j. if ?F * 2 \<le> k \<and> k < ?F * 2 + 3
                               then cells dM (k - ?F * 2) i j else cells j1 k i j)\<rparr>"
  have 2: "set_rows (?F * 2) (?F * 2 + 3) dM j1 = Inr j2"
    unfolding j2_def
    by (rule set_rows_ok [OF sh1]) (use dM ne in simp_all)
  have sh2: "shape j2 = (num_eq c, 7 + num_vars c, num_nw_vars c)"
    by (simp add: j2_def sh1)
  define j3 where "j3 = j2\<lparr>cells := (\<lambda>k i j. if ?F * 2 + 3 \<le> k \<and> k < ?F * 2 + 5
                               then cells dP (k - (?F * 2 + 3)) i j else cells j2 k i j)\<rparr>"
  have 3: "set_rows (?F * 2 + 3) (?F * 2 + 5) dP j2 = Inr j3"
    unfolding j3_def
    by (rule set_rows_ok [OF sh2]) (use dP ne in simp_all)
  have c3: "cells j3 k i j = cells (blocks ?F dF dM dP (jacobian c)) k i j" for k i j
    by (simp add: j3_def j2_def j1_def blocks_def mult.commute)
  have s3: "shape j3 = shape (blocks ?F dF dM dP (jacobian c))"
    by (simp add: j3_def j2_def j1_def blocks_def)
  have j: "j3 = blocks ?F dF dM dP (jacobian c)"
    using c3 s3 by (intro ndarray3.equality) (simp_all add: fun_eq_iff)
  have "constant_blocks c = Inr (c\<lparr>jacobian := j3\<rparr>)"
    by (simp add: constant_blocks_def Let_def dF dM dP 1 2 3)
  then show ?thesis
    using dF dM dP j by simp
qed

lemma allocate_simps [simp]:
  "num_eq (allocate c) = num_eq c"
  "num_nw_fluids (allocate c) = num_nw_fluids c"
  "num_nw_vars (allocate c) = num_nw_vars c"
  "num_vars (allocate c) = num_vars c"
  "num_i (allocate c) = num_i c"
  "logged (allocate c) = logged c"
  "P (allocate c) = P c"
  "Qloss (allocate c) = Qloss c"
  "residual (allocate c) = replicate (num_eq c) 0"
  "jacobian (allocate c) = zeros3 (num_eq c, num_i c + num_o c + num_vars c, num_nw_vars c)"
  by (simp_all add: allocate_def Let_def)

lemma comp_init_ok:
  assumes "ports_ok c"
  shows "\<exists>c4 dF dM dP. 
     c4 = allocate (count_equations (base_comp_init nw (promote_mandatory c))) \<and>
     fluid_deriv c4 = Inr dF \<and> mass_flow_deriv c4 = Inr dM \<and> pressure_deriv c4 = Inr dP \<and>
     comp_init rp nw c = Inr (c4\<lparr>jacobian := blocks (num_nw_fluids c4) dF dM dP (jacobian c4),
        fuel_list := rp_fuel_list (rp (c4\<lparr>jacobian := blocks (num_nw_fluids c4) dF dM dP (jacobian c4)\<rparr>)),
        fuels := rp_fuels (rp (c4\<lparr>jacobian := blocks (num_nw_fluids c4) dF dM dP (jacobian c4)\<rparr>)),
        o2 := rp_o2 (rp (c4\<lparr>jacobian := blocks (num_nw_fluids c4) dF dM dP (jacobian c4)\<rparr>)),
        co2 := rp_co2 (rp (c4\<lparr>jacobian := blocks (num_nw_fluids c4) dF dM dP (jacobian c4)\<rparr>)),
        h2o := rp_h2o (rp (c4\<lparr>jacobian := blocks (num_nw_fluids c4) dF dM dP (jacobian c4)\<rparr>)),
        n2 := rp_n2 (rp (c4\<lparr>jacobian := blocks (num_nw_fluids c4) dF dM dP (jacobian c4)\<rparr>))\<rparr>)"
proof -
  define c4 where "c4 = allocate (count_equations (base_comp_init nw (promote_mandatory c)))"
  have f: "num_nw_vars c4 = num_nw_fluids c4 + 3" "num_i c4 = 4"
    "num_nw_fluids c4 * 2 + 5 \<le> num_eq c4"
    "shape (jacobian c4) = (num_eq c4, 7 + num_vars c4, num_nw_vars c4)"
    using assms by (simp_all add: c4_def count_equations_eq ports_ok_def zeros3_def)
  from constant_blocks_ok [OF f(4) f(1) f(2) f(3)]
  obtain dF dM dP where d: "fluid_deriv c4 = Inr dF" "mass_flow_deriv c4 = Inr dM"
    "pressure_deriv c4 = Inr dP"
    "constant_blocks c4 = Inr (c4\<lparr>jacobian := blocks (num_nw_fluids c4) dF dM dP (jacobian c4)\<rparr>)"
    by blast
  have "comp_init rp nw c = Inr (c4\<lparr>jacobian := blocks (num_nw_fluids c4) dF dM dP (jacobian c4),
        fuel_list := rp_fuel_list (rp (c4\<lparr>jacobian := blocks (num_nw_fluids c4) dF dM dP (jacobian c4)\<rparr>)),
        fuels := rp_fuels (rp (c4\<lparr>jacobian := blocks (num_nw_fluids c4) dF dM dP (jacobian c4)\<rparr>)),
        o2 := rp_o2 (rp (c4\<lparr>jacobian := blocks (num_nw_fluids c4) dF dM dP (jacobian c4)\<rparr>)),
        co2 := rp_co2 (rp (c4\<lparr>jacobian := blocks (num_nw_fluids c4) dF dM dP (jacobian c4)\<rparr>)),
        h2o := rp_h2o (rp (c4\<lparr>jacobian := blocks (num_nw_fluids c4) dF dM dP (jacobian c4)\<rparr>)),
        n2 := rp_n2 (rp (c4\<lparr>jacobian := blocks (num_nw_fluids c4) dF dM dP (jacobian c4)\<rparr>))\<rparr>)"
    unfolding comp_init_def c4_def [symmetric] d(4) bindE_Inr Let_def ..
  then show ?thesis
    using d c4_def by blast
qed

lemma deriv_cong:
  assumes "num_nw_fluids c' = num_nw_fluids c" "num_vars c' = num_vars c"
    "num_nw_vars c' = num_nw_vars c" "num_i c' = num_i c"
  shows "fluid_deriv c' = fluid_deriv c" "mass_flow_deriv c' = mass_flow_deriv c"
    "pressure_deriv c' = pressure_deriv c"
  by (simp_all add: fluid_deriv_def mass_flow_deriv_def pressure_deriv_def assms)

lemma comp_init_fields:
  assumes "ports_ok c"
  shows "\<exists>c' dF dM dP. comp_init rp nw c = Inr c' \<and>
     fluid_deriv c' = Inr dF \<and> mass_flow_deriv c' = Inr dM \<and> pressure_deriv c' = Inr dP \<and>
     jacobian c' = blocks (length (fluids nw)) dF dM dP
        (zeros3 (num_eq c', 7 + num_vars c', length (fluids nw) + 3)) \<and>
     residual c' = replicate (num_eq c') 0 \<and>
     num_nw_fluids c' = length (fluids nw) \<and>
     num_eq c' = spec_num_eq (length (fluids nw)) c \<and>
     num_vars c' = length (filter is_var (attr_parameters (promote_mandatory c))) \<and>
     is_var (P c') = (is_var (P c) \<or> \<not> is_set (P c)) \<and>
     is_var (Qloss c') = (is_var (Qloss c) \<or> \<not> is_set (Qloss c)) \<and>
     logged c' = logged (promote_mandatory c)"
proof -
  from comp_init_ok [OF assms, of nw rp]
  obtain c4 dF dM dP c' where
    c4: "c4 = allocate (count_equations (base_comp_init nw (promote_mandatory c)))"
    and d: "fluid_deriv c4 = Inr dF" "mass_flow_deriv c4 = Inr dM" "pressure_deriv c4 = Inr dP"
    and c': "comp_init rp nw c = Inr c'"
      "c' = c4\<lparr>jacobian := blocks (num_nw_fluids c4) dF dM dP (jacobian c4),
        fuel_list := rp_fuel_list (rp (c4\<lparr>jacobian := blocks (num_nw_fluids c4) dF dM dP (jacobian c4)\<rparr>)),
        fuels := rp_fuels (rp (c4\<lparr>jacobian := blocks (num_nw_fluids c4) dF dM dP (jacobian c4)\<rparr>)),
        o2 := rp_o2 (rp (c4\<lparr>jacobian := blocks (num_nw_fluids c4) dF dM dP (jacobian c4)\<rparr>)),
        co2 := rp_co2 (rp (c4\<lparr>jacobian := blocks (num_nw_fluids c4) dF dM dP (jacobian c4)\<rparr>)),
        h2o := rp_h2o (rp (c4\<lparr>jacobian := blocks (num_nw_fluids c4) dF dM dP (jacobian c4)\<rparr>)),
        n2 := rp_n2 (rp (c4\<lparr>jacobian := blocks (num_nw_fluids c4) dF dM dP (jacobian c4)\<rparr>))\<rparr>"
    by blast
  have same: "num_nw_fluids c' = num_nw_fluids c4" "num_vars c' = num_vars c4"
    "num_nw_vars c' = num_nw_vars c4" "num_i c' = num_i c4" "num_eq c' = num_eq c4"
    "residual c' = residual c4" "logged c' = logged c4" "P c' = P c4" "Qloss c' = Qloss c4"
    "jacobian c' = blocks (num_nw_fluids c4) dF dM dP (jacobian c4)"
    by (simp_all add: c'(2))
  have c4f: "num_nw_fluids c4 = length (fluids nw)"
    "num_eq c4 = spec_num_eq (length (fluids nw)) c"
    "num_vars c4 = length (filter is_var (attr_parameters (promote_mandatory c)))"
    "is_var (P c4) = (is_var (P c) \<or> \<not> is_set (P c))"
    "is_var (Qloss c4) = (is_var (Qloss c) \<or> \<not> is_set (Qloss c))"
    "logged c4 = logged (promote_mandatory c)"
    "residual c4 = replicate (num_eq c4) 0"
    "jacobian c4 = zeros3 (num_eq c4, 7 + num_vars c4, length (fluids nw) + 3)"
    using assms filter_is_set_cong [OF base_comp_init_simps(9), of nw "promote_mandatory c"]
    by (simp_all add: c4 count_equations_eq spec_num_eq_def ports_ok_def)
  show ?thesis
    using c'(1) d deriv_cong [OF same(1-4)] same c4f by (intro exI [of _ c'] exI [of _ dF] exI [of _ dM] exI [of _ dP]) simp
qed

subsection \<open>C3: the number of equations\<close>

text \<open>
  C3: on an engine with its four inlets and three outlets, \<^verbatim>\<open>comp_init\<close> returns, and
  with \<open>F\<close> fluids in the network it sets \<^verbatim>\<open>num_eq\<close> to \<open>2 F + 3 + 2 + F + 5\<close> plus
  one for each of \<^verbatim>\<open>lamb\<close>, \<^verbatim>\<open>ti\<close>, \<^verbatim>\<open>Q1\<close>, \<^verbatim>\<open>Q2\<close>, \<^verbatim>\<open>pr1\<close>, \<^verbatim>\<open>pr2\<close>,
  \<^verbatim>\<open>zeta1\<close> and \<^verbatim>\<open>zeta2\<close> that is set. Whatever \<^verbatim>\<open>P\<close> and \<^verbatim>\<open>Qloss\<close> are, the
  number is the same.
\<close>

theorem comp_init_num_eq:
  assumes "ports_ok c"
  shows "\<exists>c'. comp_init rp nw c = Inr c' \<and>
     num_eq c' = 2 * length (fluids nw) + 3 + 2 + length (fluids nw) + 5 +
       length (filter is_set (optional_parameters c)) \<and>
     (\<forall>p q. \<exists>c''. comp_init rp nw (c\<lparr>P := p, Qloss := q\<rparr>) = Inr c'' \<and>
        num_eq c'' = num_eq c')"
proof -
  obtain c' where c': "comp_init rp nw c = Inr c'"
    "num_eq c' = spec_num_eq (length (fluids nw)) c"
    using comp_init_fields [OF assms, of rp nw] by blast
  have "\<exists>c''. comp_init rp nw (c\<lparr>P := p, Qloss := q\<rparr>) = Inr c'' \<and> num_eq c'' = num_eq c'"
    for p q
  proof -
    have "ports_ok (c\<lparr>P := p, Qloss := q\<rparr>)"
      using assms by (simp add: ports_ok_def)
    from comp_init_fields [OF this, of rp nw]
    obtain c'' where "comp_init rp nw (c\<lparr>P := p, Qloss := q\<rparr>) = Inr c''"
      "num_eq c'' = spec_num_eq (length (fluids nw)) (c\<lparr>P := p, Qloss := q\<rparr>)"
      by blast
    then show ?thesis
      by (simp add: c'(2) spec_num_eq_def optional_parameters_def)
  qed
  then show ?thesis
    using c' by (simp add: spec_num_eq_def)
qed

lemma demo_values:
  "length (fluids demo_network) = 5"
  "length (filter is_set (optional_parameters demo_engine)) = 2"
  "length (filter is_var (attr_parameters demo_engine)) = 0"
  "is_set (P demo_engine)" "\<not> is_set (Qloss demo_engine)"
  "\<not> is_var (P demo_engine)" "\<not> is_var (Qloss demo_engine)"
  "label demo_engine = ''internal combustion engine''"
  "logged demo_engine = []"
  by (simp_all add: demo_network_def attr_parameters_def optional_parameters_def demo_defs)

theorem comp_init_num_eq_witness:
  "ports_ok demo_engine \<and>
   (\<exists>c'. comp_init demo_reaction demo_network demo_engine = Inr c' \<and> num_eq c' = 27)"
  using comp_init_num_eq [OF demo_ports_ok, of demo_reaction demo_network]
  by (auto simp: demo_ports_ok demo_values)

subsection \<open>C4: the promotion of the power and of the heat loss\<close>

text \<open>
  C4: \<^verbatim>\<open>comp_init\<close> does not fail when \<^verbatim>\<open>P\<close> or \<^verbatim>\<open>Qloss\<close> is not set. A parameter
  of the two that is not set (and not yet a variable) becomes a variable, each on its
  own; an information record says so for each; and the component has one variable more
  for each promotion.
\<close>

theorem comp_init_promotes:
  assumes "ports_ok c" and "\<not> is_var (P c)" and "\<not> is_var (Qloss c)"
  shows "\<exists>c'. comp_init rp nw c = Inr c' \<and>
     is_var (P c') = (\<not> is_set (P c)) \<and>
     is_var (Qloss c') = (\<not> is_set (Qloss c)) \<and>
     logged c' = logged c @
       (if is_set (P c) then [] else [(INFO, power_msg (label c))]) @
       (if is_set (Qloss c) then [] else [(INFO, heat_loss_msg (label c))]) \<and>
     num_vars c' = length (filter is_var (attr_parameters c)) +
       (if is_set (P c) then 0 else 1) + (if is_set (Qloss c) then 0 else 1)"
proof -
  obtain c' where c': "comp_init rp nw c = Inr c'"
    "num_vars c' = length (filter is_var (attr_parameters (promote_mandatory c)))"
    "is_var (P c') = (is_var (P c) \<or> \<not> is_set (P c))"
    "is_var (Qloss c') = (is_var (Qloss c) \<or> \<not> is_set (Qloss c))"
    "logged c' = logged (promote_mandatory c)"
    using comp_init_fields [OF assms(1), of rp nw] by blast
  show ?thesis
    using c' assms(2,3) by (simp add: promote_mandatory_vars)
qed

theorem comp_init_promotes_witness:
  "(\<exists>c'. comp_init demo_reaction demo_network demo_engine = Inr c' \<and>
      \<not> is_var (P c') \<and> is_var (Qloss c') \<and> num_vars c' = 1 \<and>
      logged c' = [(INFO, heat_loss_msg ''internal combustion engine'')]) \<and>
   (\<exists>c'. comp_init demo_reaction demo_network (demo_engine\<lparr>P := unset\<rparr>) = Inr c' \<and>
      is_var (P c') \<and> is_var (Qloss c') \<and> num_vars c' = 2 \<and>
      logged c' = [(INFO, power_msg ''internal combustion engine''),
                   (INFO, heat_loss_msg ''internal combustion engine'')]) \<and>
   heat_loss_msg ''internal combustion engine'' =
     ''The heat loss of combustion engines must be set! We are adding the heat loss of component internal combustion engine as custom variable of the system.''"
proof -
  have 1: "ports_ok demo_engine" "\<not> is_var (P demo_engine)" "\<not> is_var (Qloss demo_engine)"
    by (simp_all add: demo_ports_ok demo_values)
  have 2: "ports_ok (demo_engine\<lparr>P := unset\<rparr>)" "\<not> is_var (P (demo_engine\<lparr>P := unset\<rparr>))"
    "\<not> is_var (Qloss (demo_engine\<lparr>P := unset\<rparr>))"
    using demo_ports_ok by (simp_all add: ports_ok_def demo_values) (simp add: unset_def)
  have 3: "length (filter is_var (attr_parameters (demo_engine\<lparr>P := unset\<rparr>))) = 0"
    "\<not> is_set unset"
    by (simp_all add: attr_parameters_def demo_defs)
  have 4: "heat_loss_msg ''internal combustion engine'' =
     ''The heat loss of combustion engines must be set! We are adding the heat loss of component internal combustion engine as custom variable of the system.''"
    by (simp add: heat_loss_msg_def)
  show ?thesis
    using comp_init_promotes [OF 1, of demo_reaction demo_network]
      comp_init_promotes [OF 2, of demo_reaction demo_network]
    by (auto simp: demo_values 3 4)
qed

subsection \<open>Starting values of the flue gas\<close>

lemma bindE_InrD: "bindE r f = Inr y \<Longrightarrow> \<exists>x. r = Inr x \<and> f x = Inr y"
  by (cases r) simp_all

lemma py_div_InrD: "py_div a d = Inr q \<Longrightarrow> d \<noteq> 0"
  by (auto simp: py_div_def split: if_splits)

lemma py_div_zero [simp]: "py_div a 0 = Inl ZeroDivisionError"
  by (simp add: py_div_def)

lemma getitem_Some: "map_of d k = Some v \<Longrightarrow> getitem d k = Inr v"
  by (simp add: getitem_def)

lemma getitem_InrD: "getitem d k = Inr v \<Longrightarrow> map_of d k = Some v"
  by (auto simp: getitem_def split: option.splits)

text \<open>The sum over the inlets for one fuel.\<close>

lemma inlet_sum_zero:
  fixes "is" :: "real connection list"
  assumes "list_all (\<lambda>i. map_of (fluid_val i) f = Some 0) is"
  shows "foldE (\<lambda>i v. bindE (getitem (fluid_val i) f) (\<lambda>x. Inr (v + x / 2))) is v0 = Inr v0"
  using assms by (induction "is" arbitrary: v0) (simp_all add: getitem_Some)

lemma inlet_sum_unchanged:
  fixes "is" :: "real connection list"
  assumes "foldE (\<lambda>i v. bindE (getitem (fluid_val i) f) (\<lambda>x. Inr (v + x / 2))) is v0 = Inr v"
    and "\<And>i x. i \<in> set is \<Longrightarrow> map_of (fluid_val i) f = Some x \<Longrightarrow> x = 0"
  shows "v = v0"
  using assms
proof (induction "is" arbitrary: v0)
  case Nil
  then show ?case by simp
next
  case (Cons i "is")
  from Cons.prems(1) obtain x where x: "getitem (fluid_val i) f = Inr x"
    and r: "foldE (\<lambda>i v. bindE (getitem (fluid_val i) f) (\<lambda>x. Inr (v + x / 2))) is (v0 + x / 2) = Inr v"
    by (auto dest!: bindE_InrD)
  have "x = 0"
    using Cons.prems(2) [of i x] getitem_InrD [OF x] by simp
  moreover have "v = v0 + x / 2"
    by (rule Cons.IH [OF r]) (use Cons.prems(2) in auto)
  ultimately show ?case by simp
qed

lemma fact_fuel_sums_zero_gen:
  fixes "is" :: "real connection list"
  assumes "list_all (\<lambda>f. list_all (\<lambda>i. map_of (fluid_val i) f = Some 0) is) fl"
  shows "\<exists>ff. foldE (\<lambda>f (fact_fuel, sum_fuel).
        bindE (foldE (\<lambda>i v. bindE (getitem (fluid_val i) f) (\<lambda>x. Inr (v + x / 2))) is 0) (\<lambda>v.
        Inr (AList.update f v fact_fuel, sum_fuel + v))) fl (ff0, s0) = Inr (ff, s0) \<and>
      (\<forall>k. map_of ff k = (if k \<in> set fl then Some 0 else map_of ff0 k))"
  using assms
proof (induction fl arbitrary: ff0)
  case Nil
  then show ?case by simp
next
  case (Cons f fl)
  have z: "foldE (\<lambda>i v. bindE (getitem (fluid_val i) f) (\<lambda>x. Inr (v + x / 2))) is 0 = Inr 0"
    using Cons.prems by (simp add: inlet_sum_zero)
  from Cons.prems have "list_all (\<lambda>f. list_all (\<lambda>i. map_of (fluid_val i) f = Some 0) is) fl"
    by simp
  from Cons.IH [OF this, of "AList.update f 0 ff0"]
  show ?case
    by (auto simp: z update_conv')
qed

lemma fact_fuel_sums_unchanged_gen:
  fixes "is" :: "real connection list"
  assumes "foldE (\<lambda>f (fact_fuel, sum_fuel).
        bindE (foldE (\<lambda>i v. bindE (getitem (fluid_val i) f) (\<lambda>x. Inr (v + x / 2))) is 0) (\<lambda>v.
        Inr (AList.update f v fact_fuel, sum_fuel + v))) fl (ff0, s0) = Inr (ff, s)"
    and "\<And>f i x. f \<in> set fl \<Longrightarrow> i \<in> set is \<Longrightarrow> map_of (fluid_val i) f = Some x \<Longrightarrow> x = 0"
  shows "s = s0"
  using assms
proof (induction fl arbitrary: ff0 s0)
  case Nil
  then show ?case by simp
next
  case (Cons f fl)
  from Cons.prems(1) obtain v where
    v: "foldE (\<lambda>i v. bindE (getitem (fluid_val i) f) (\<lambda>x. Inr (v + x / 2))) is 0 = Inr v"
    and r: "foldE (\<lambda>f (fact_fuel, sum_fuel).
        bindE (foldE (\<lambda>i v. bindE (getitem (fluid_val i) f) (\<lambda>x. Inr (v + x / 2))) is 0) (\<lambda>v.
        Inr (AList.update f v fact_fuel, sum_fuel + v))) fl (AList.update f v ff0, s0 + v) = Inr (ff, s)"
    by (auto dest!: bindE_InrD)
  have "v = 0"
    by (rule inlet_sum_unchanged [OF v]) (use Cons.prems(2) in auto)
  moreover have "s = s0 + v"
    by (rule Cons.IH [OF r]) (use Cons.prems(2) in auto)
  ultimately show ?case by simp
qed

lemma flue_gas_guess_no_fuels:
  assumes "fuel_list c = []"
  shows "\<exists>e. flue_gas_guess b c = Inl e"
    and "molar_masses_ok b c \<Longrightarrow> flue_gas_guess b c = Inl ZeroDivisionError"
  by (auto simp: flue_gas_guess_def fact_fuel_sums_def fact_fuel_normalised_def
      fuel_masses_def assms bindE_def py_div_def Let_def molar_masses_ok_def getitem_def
      split: sum.splits option.splits)

lemma fact_fuel_normalised_zero:
  assumes "fuel_list c \<noteq> []"
  shows "\<exists>e. fact_fuel_normalised c ff 0 = Inl e"
    and "map_of ff (hd (fuel_list c)) \<noteq> None \<Longrightarrow>
         fact_fuel_normalised c ff 0 = Inl ZeroDivisionError"
  using assms
  by (cases "fuel_list c"; auto simp: fact_fuel_normalised_def bindE_def getitem_def
      split: sum.splits option.splits)+

lemma flue_gas_guess_zero:
  assumes "no_fuel_at_inlets c" and "fuel_list c \<noteq> [] \<or> molar_masses_ok b c"
  shows "flue_gas_guess b c = Inl ZeroDivisionError"
proof (cases "fuel_list c = []")
  case True
  then show ?thesis
    using assms(2) flue_gas_guess_no_fuels(2) by blast
next
  case False
  from fact_fuel_sums_zero_gen [of "inl c" "fuel_list c" "[]" 0] assms(1)
  obtain ff where ff: "fact_fuel_sums c = Inr (ff, 0)"
    "\<forall>k. map_of ff k = (if k \<in> set (fuel_list c) then Some 0 else map_of [] k)"
    unfolding fact_fuel_sums_def no_fuel_at_inlets_def by blast
  have "map_of ff (hd (fuel_list c)) \<noteq> None"
    using ff(2) False by simp
  from fact_fuel_normalised_zero(2) [OF False this]
  show ?thesis
    by (simp add: flue_gas_guess_def ff(1))
qed

lemma flue_gas_guess_Inr:
  assumes "flue_gas_guess b c = Inr fg" and "fractions_nonnegative c"
  shows "some_fuel_at_inlets c"
proof (rule ccontr)
  assume no: "\<not> some_fuel_at_inlets c"
  have zero: "x = 0"
    if "f \<in> set (fuel_list c)" "i \<in> set (inl c)" "map_of (fluid_val i) f = Some x" for f i x
  proof -
    have "(f, x) \<in> set (fluid_val i)"
      using that(3) by (rule map_of_SomeD)
    then have "0 \<le> x"
      using assms(2) that(2) by (auto simp: fractions_nonnegative_def list_all_iff)
    moreover have "\<not> 0 < x"
      using no that by (auto simp: some_fuel_at_inlets_def list_ex_iff split: option.splits)
    ultimately show ?thesis by simp
  qed
  from assms(1) obtain ff sf where s: "fact_fuel_sums c = Inr (ff, sf)"
    and n: "\<exists>ff'. fact_fuel_normalised c ff sf = Inr ff'"
    unfolding flue_gas_guess_def by (auto dest!: bindE_InrD)
  have "sf = 0"
    by (rule fact_fuel_sums_unchanged_gen [OF s [unfolded fact_fuel_sums_def]]) (rule zero)
  show False
  proof (cases "fuel_list c = []")
    case True
    then show ?thesis
      using flue_gas_guess_no_fuels(1) [of c b] assms(1) by auto
  next
    case False
    then show ?thesis
      using fact_fuel_normalised_zero(1) [of c ff] n \<open>sf = 0\<close> by auto
  qed
qed

lemma with_ports_simps [simp]:
  "fuel_list (with_ports nw self c) = fuel_list c"
  "molar_masses_ok b (with_ports nw self c) = molar_masses_ok b c"
  "inl (with_ports nw self c) = map (conns nw) (comp_inl nw self)"
  "outl (with_ports nw self c) = map (conns nw) (comp_outl nw self)"
  by (simp_all add: with_ports_def molar_masses_ok_def)

subsection \<open>C10: the division by the sum of the fuel fractions\<close>

text \<open>
  C10: \<^verbatim>\<open>initialise_fluids\<close> divides by \<^verbatim>\<open>sum_fuel\<close> without a guard. When every
  fuel has the fraction zero at every inlet, the call raises a ZeroDivisionError (with no
  fuel at all the division by \<^verbatim>\<open>m_fg\<close> raises it, when the molar masses of carbon
  dioxide, water and oxygen are known). When the call returns and no fraction of an inlet
  is negative, some fuel has a positive fraction at some inlet.
\<close>

theorem initialise_fluids_division:
  "(no_fuel_at_inlets (with_ports nw self c) \<and> (fuel_list c \<noteq> [] \<or> molar_masses_ok b c) \<longrightarrow>
      initialise_fluids oth b depth nw self c = Inl ZeroDivisionError) \<and>
   (fractions_nonnegative (with_ports nw self c) \<and>
      (\<exists>nw'. initialise_fluids oth b depth nw self c = Inr nw') \<longrightarrow>
      some_fuel_at_inlets (with_ports nw self c))"
proof (intro conjI impI)
  assume "no_fuel_at_inlets (with_ports nw self c) \<and> (fuel_list c \<noteq> [] \<or> molar_masses_ok b c)"
  then have "flue_gas_guess b (with_ports nw self c) = Inl ZeroDivisionError"
    by (intro flue_gas_guess_zero) simp_all
  then show "initialise_fluids oth b depth nw self c = Inl ZeroDivisionError"
    by (simp add: initialise_fluids_def Let_def)
next
  assume a: "fractions_nonnegative (with_ports nw self c) \<and>
      (\<exists>nw'. initialise_fluids oth b depth nw self c = Inr nw')"
  then obtain fg where "flue_gas_guess b (with_ports nw self c) = Inr fg"
    by (auto simp: initialise_fluids_def Let_def dest!: bindE_InrD)
  then show "some_fuel_at_inlets (with_ports nw self c)"
    using a by (intro flue_gas_guess_Inr [of b _ fg]) simp_all
qed

lemma demo_net_facts:
  "no_fuel_at_inlets (with_ports demo_net_air 0 demo_engine)"
  "fuel_list demo_engine \<noteq> []"
  "fractions_nonnegative (with_ports demo_net 0 demo_engine)"
  "case initialise_fluids demo_others demo_base 1 demo_net 0 demo_engine of
     Inl e \<Rightarrow> False | Inr nw \<Rightarrow> True"
  by code_simp+

theorem initialise_fluids_division_witness:
  "initialise_fluids demo_others demo_base 1 demo_net_air 0 demo_engine = Inl ZeroDivisionError \<and>
   (\<exists>nw'. initialise_fluids demo_others demo_base 1 demo_net 0 demo_engine = Inr nw') \<and>
   some_fuel_at_inlets (with_ports demo_net 0 demo_engine)"
proof -
  have ex: "\<exists>nw'. initialise_fluids demo_others demo_base 1 demo_net 0 demo_engine = Inr nw'"
    using demo_net_facts(4) by (auto split: sum.splits)
  show ?thesis
    using initialise_fluids_division [of demo_net_air 0 demo_engine demo_base demo_others 1]
      initialise_fluids_division [of demo_net 0 demo_engine demo_base demo_others 1]
      demo_net_facts(1-3) ex
    by blast
qed

subsection \<open>Two engines in a ring\<close>

lemma copy_fluid_ring: "copy_fluid (ring_conn s t) (ring_conn s' t') = Inr (ring_conn s' t')"
  by (simp add: copy_fluid_def ring_conn_def water_def getitem_def)

lemma ring_conns:
  "conns ring 4 = ring_conn 2 3" "conns ring 5 = ring_conn 3 2"
  "take 2 (comp_outl ring 2) = [4, 6]" "take 2 (comp_outl ring 3) = [5, 8]"
  "take 2 (comp_inl ring 2) = [5, 10]" "take 2 (comp_inl ring 3) = [4, 13]"
  "is_engine ring 2" "is_engine ring 3"
  "target (ring_conn s t) = t" "source (ring_conn s t) = s"
  by (simp_all add: ring_def ring_conn_def)

lemma ring_update:
  "ring\<lparr>conns := (conns ring)(4 := ring_conn 2 3)\<rparr> = ring"
  "ring\<lparr>conns := (conns ring)(5 := ring_conn 3 2)\<rparr> = ring"
  by (simp_all add: ring_def fun_eq_iff)

lemma ring_to_target:
  "propagate_fluid_to_target oth depth ring 3 4 start = Inl RecursionError \<and>
   propagate_fluid_to_target oth depth ring 2 5 start = Inl RecursionError"
proof (induction depth)
  case 0
  show ?case by simp
next
  case (Suc depth)
  then show ?case
    by (simp add: ring_conns copy_fluid_ring ring_update Let_def)
qed

lemma ring_to_source:
  "propagate_fluid_to_source oth depth ring 2 4 start = Inl RecursionError \<and>
   propagate_fluid_to_source oth depth ring 3 5 start = Inl RecursionError"
proof (induction depth)
  case 0
  show ?case by simp
next
  case (Suc depth)
  then show ?case
    by (simp add: ring_conns copy_fluid_ring ring_update Let_def)
qed

subsection \<open>C8: the propagation of the composition\<close>

text \<open>
  C8 says that \<^verbatim>\<open>propagate_fluid_to_target\<close> and \<^verbatim>\<open>propagate_fluid_to_source\<close> end on
  every network, also on a cyclic one, by a guard on the argument \<^verbatim>\<open>start\<close>. The two
  methods hand \<^verbatim>\<open>start\<close> on and never compare it with anything. On the ring of two
  engines every call makes the next one: whatever the bound on the depth of the recursion
  and whatever the other components do, the call that starts the propagation at the
  engine 3 with the connection 4 raises a RecursionError, and so does the propagation to
  the source that starts at the engine 2.
\<close>

theorem propagate_fluid_ring:
  "propagate_fluid_to_target oth depth ring 3 4 3 = Inl RecursionError \<and>
   propagate_fluid_to_source oth depth ring 2 4 2 = Inl RecursionError"
  using ring_to_target [of oth depth 3] ring_to_source [of oth depth 2] by simp

subsection \<open>Residual rows\<close>

lemma run_append:
  "run (fs @ gs) s = (case run fs s of (s', None) \<Rightarrow> run gs s' | (s', Some e) \<Rightarrow> (s', Some e))"
  by (induction fs arbitrary: s) (auto split: prod.splits option.splits)

lemma set_slice_Inr:
  assumes "set_slice lo hi vs r = Inr r'"
  shows "length r' = length r" and "\<And>j. hi \<le> j \<Longrightarrow> j < length r \<Longrightarrow> r' ! j = r ! j"
proof -
  define hi' where "hi' = min hi (length r)"
  define lo' where "lo' = min lo hi'"
  have le: "lo' \<le> hi'" "hi' \<le> length r" "hi' \<le> hi"
    by (auto simp: lo'_def hi'_def)
  from assms have "(r' = take lo' r @ vs @ drop hi' r \<and> length vs = hi' - lo') \<or>
      r' = take lo' r @ replicate (hi' - lo') (hd vs) @ drop hi' r"
    unfolding set_slice_def Let_def hi'_def [symmetric] lo'_def [symmetric]
    by (auto split: if_splits)
  then obtain ws where ws: "r' = take lo' r @ ws @ drop hi' r" "length ws = hi' - lo'"
    by (metis length_replicate)
  show "length r' = length r"
    using le by (simp add: ws)
  show "r' ! j = r ! j" if "hi \<le> j" "j < length r" for j
  proof -
    have j: "hi' \<le> j" "lo' \<le> j" using le that by simp_all
    have "r' ! j = (ws @ drop hi' r) ! (j - lo')"
      using le j by (simp add: ws(1) nth_append)
    also have "\<dots> = drop hi' r ! (j - lo' - (hi' - lo'))"
    proof -
      have "\<not> j - lo' < hi' - lo'" using le j by arith
      then show ?thesis by (simp add: nth_append ws(2))
    qed
    also have "j - lo' - (hi' - lo') = j - hi'"
      using le j by simp
    also have "drop hi' r ! (j - hi') = r ! j"
      using le j that by simp
    finally show ?thesis .
  qed
qed

lemma plain_row_None:
  assumes "plain_row f (k, r) = ((k', r'), None)"
  shows "\<exists>v. f = Inr v \<and> k < length r \<and> k' = k + 1 \<and> r' = r[k := v]"
  using assms by (auto simp: plain_row_def split: sum.splits if_splits)

lemma guarded_row_None:
  assumes "guarded_row b c f (k, r) = ((k', r'), None)"
  shows "k < length r \<and> k' = k + 1 \<and>
     (if recompute b c (r ! k) then \<exists>v. f = Inr v \<and> r' = r[k := v] else r' = r)"
  using assms by (auto simp: guarded_row_def split: sum.splits if_splits)

lemma equation_row_None:
  assumes "equation_row b c eq (k, r) = ((k', r'), None)"
  shows "k < length r \<and> k' = k + 1 \<and> length r' = length r \<and>
     (\<forall>j. j \<noteq> k \<longrightarrow> r' ! j = r ! j) \<and>
     (if guarded eq \<and> \<not> recompute b c (r ! k) then r' ! k = r ! k
      else residual_of b c eq = Inr (r' ! k))"
proof (cases "guarded eq")
  case True
  with assms have "guarded_row b c (residual_of b c eq) (k, r) = ((k', r'), None)"
    by (simp add: equation_row_def)
  from guarded_row_None [OF this] show ?thesis
    using True by (auto split: if_splits)
next
  case False
  with assms have "plain_row (residual_of b c eq) (k, r) = ((k', r'), None)"
    by (simp add: equation_row_def)
  from plain_row_None [OF this] show ?thesis
    using False by auto
qed

lemma run_equation_rows:
  assumes "run (map (equation_row b c) eqs) (k0, r0) = ((k, r), None)"
  shows "k = k0 + length eqs \<and> length r = length r0 \<and>
     (\<forall>j<k0. r ! j = r0 ! j) \<and>
     (\<forall>j<length eqs. k0 + j < length r0) \<and>
     (\<forall>j<length eqs.
        if guarded (eqs ! j) \<and> \<not> recompute b c (r0 ! (k0 + j)) then r ! (k0 + j) = r0 ! (k0 + j)
        else residual_of b c (eqs ! j) = Inr (r ! (k0 + j)))"
  using assms
proof (induction eqs arbitrary: k0 r0)
  case Nil
  then show ?case by simp
next
  case (Cons eq eqs)
  from Cons.prems obtain k1 r1 where
    1: "equation_row b c eq (k0, r0) = ((k1, r1), None)"
    and 2: "run (map (equation_row b c) eqs) (k1, r1) = ((k, r), None)"
    by (auto split: prod.splits option.splits)
  note a = equation_row_None [OF 1]
  note ih = Cons.IH [OF 2]
  have k1: "k1 = k0 + 1" using a by simp
  have head: "r ! k0 = r1 ! k0"
    using ih k1 by simp
  have tail_old: "r1 ! (k1 + j) = r0 ! (k0 + 1 + j)" for j
    using a k1 by simp
  have row: "if guarded ((eq # eqs) ! j) \<and> \<not> recompute b c (r0 ! (k0 + j))
       then r ! (k0 + j) = r0 ! (k0 + j)
       else residual_of b c ((eq # eqs) ! j) = Inr (r ! (k0 + j))"
    if "j < length (eq # eqs)" for j
  proof (cases j)
    case 0
    then show ?thesis
      using a head by (auto split: if_splits)
  next
    case (Suc i)
    then have i: "i < length eqs" using that by simp
    from ih i have "if guarded (eqs ! i) \<and> \<not> recompute b c (r1 ! (k1 + i))
       then r ! (k1 + i) = r1 ! (k1 + i)
       else residual_of b c (eqs ! i) = Inr (r ! (k1 + i))"
      by blast
    then show ?thesis
      using Suc k1 tail_old [of i] by (auto split: if_splits)
  qed
  have old: "\<forall>j<k0. r ! j = r0 ! j"
    using ih a k1 by simp
  have bound: "k0 + j < length r0" if "j < length (eq # eqs)" for j
  proof (cases j)
    case 0
    then show ?thesis using a by simp
  next
    case (Suc i)
    then have "i < length eqs" using that by simp
    with ih have "k1 + i < length r1" by blast
    then show ?thesis using Suc k1 a by simp
  qed
  show ?case
    using ih a k1 row old bound by simp
qed

lemma structural_rows_None:
  assumes "run (structural_rows c) (0, r0) = ((k, r), None)"
  shows "k = num_nw_fluids c * 2 + 5 \<and> length r = length r0 \<and>
     (\<forall>j. num_nw_fluids c * 2 + 5 \<le> j \<and> j < length r0 \<longrightarrow> r ! j = r0 ! j)"
proof -
  let ?F2 = "num_nw_fluids c * 2"
  from assms obtain r1 r2 k3 r3 where
    1: "bindE (fluid_func c) (\<lambda>vs. set_slice 0 ?F2 vs r0) = Inr r1"
    and 2: "set_slice ?F2 (?F2 + 3) (mass_flow_func (inl c) (outl c)) r1 = Inr r2"
    and 3: "plain_row (Inr (p_val_SI (inl c ! 2) - p_val_SI (outl c ! 2))) (?F2 + 3, r2)
              = ((k3, r3), None)"
    and 4: "plain_row (Inr (p_val_SI (inl c ! 2) - p_val_SI (inl c ! 3))) (k3, r3)
              = ((k, r), None)"
    unfolding structural_rows_def
    by (auto split: sum.splits prod.splits option.splits)
  from 1 obtain vs where "set_slice 0 ?F2 vs r0 = Inr r1"
    by (auto dest!: bindE_InrD)
  note s1 = set_slice_Inr [OF this]
  note s2 = set_slice_Inr [OF 2]
  note s3 = plain_row_None [OF 3]
  note s4 = plain_row_None [OF 4]
  have "r ! j = r0 ! j" if "?F2 + 5 \<le> j" "j < length r0" for j
  proof -
    have "r ! j = r3 ! j" using s4 s3 that by auto
    also have "\<dots> = r2 ! j" using s3 that by auto
    also have "\<dots> = r1 ! j" using s2(2) [of j] s1(1) that by simp
    also have "\<dots> = r0 ! j" using s1(2) [of j] that by simp
    finally show ?thesis .
  qed
  then show ?thesis
    using s1(1) s2(1) s3 s4 by auto
qed

lemma guarded_iff:
  "guarded eq \<longleftrightarrow>
     eq \<notin> {LambTarget, TiTarget, Q1Target, Q2Target, Pr1Target, Pr2Target}"
  by (cases eq) simp_all

subsection \<open>C5: the selective evaluation of the residuals\<close>

text \<open>
  C5 (amended): when \<^verbatim>\<open>equations\<close> returns, every equation from the row
  \<open>2 F + 5\<close> on that the source guards (the reaction balance of every species, the energy
  balance, the four characteristic lines, and \<^verbatim>\<open>zeta1\<close> and \<^verbatim>\<open>zeta2\<close> when set) keeps
  its stored residual unless the magnitude of the stored residual exceeds \<^verbatim>\<open>err ** 2\<close>,
  or the iteration counter is a multiple of four, or \<^verbatim>\<open>always_all_equations\<close> is set;
  under one of these conditions the row holds the value of the equation. The rows of
  \<^verbatim>\<open>lamb\<close>, \<^verbatim>\<open>ti\<close>, \<^verbatim>\<open>Q1\<close>, \<^verbatim>\<open>Q2\<close>, \<^verbatim>\<open>pr1\<close> and \<^verbatim>\<open>pr2\<close>, when set, hold
  the value of their equation after every call.
\<close>

theorem equations_selective:
  assumes "equations b c = (c', None)" and "j < length (equation_rows c)"
  shows "num_nw_fluids c * 2 + 5 + j < length (residual c) \<and>
     (if guarded (equation_rows c ! j) \<and>
         \<not> recompute b c (residual c ! (num_nw_fluids c * 2 + 5 + j))
      then residual c' ! (num_nw_fluids c * 2 + 5 + j) =
           residual c ! (num_nw_fluids c * 2 + 5 + j)
      else residual_of b c (equation_rows c ! j) =
           Inr (residual c' ! (num_nw_fluids c * 2 + 5 + j))) \<and>
     (guarded (equation_rows c ! j) \<longleftrightarrow>
        equation_rows c ! j \<notin> {LambTarget, TiTarget, Q1Target, Q2Target, Pr1Target, Pr2Target})"
proof -
  let ?k0 = "num_nw_fluids c * 2 + 5"
  from assms(1) obtain k r where
    run: "run (structural_rows c @ map (equation_row b c) (equation_rows c)) (0, residual c)
            = ((k, r), None)"
    and c': "residual c' = r"
    by (auto simp: equations_def split: prod.splits)
  from run obtain k1 r1 where
    1: "run (structural_rows c) (0, residual c) = ((k1, r1), None)"
    and 2: "run (map (equation_row b c) (equation_rows c)) (k1, r1) = ((k, r), None)"
    by (auto simp: run_append split: prod.splits option.splits)
  note s = structural_rows_None [OF 1]
  have k1: "k1 = ?k0" using s by simp
  note e = run_equation_rows [OF 2 [unfolded k1]]
  have bound: "?k0 + j < length (residual c)"
    using e assms(2) s by auto
  have old: "r1 ! (?k0 + j) = residual c ! (?k0 + j)"
    using s bound by simp
  from e assms(2) have "if guarded (equation_rows c ! j) \<and> \<not> recompute b c (r1 ! (?k0 + j))
      then r ! (?k0 + j) = r1 ! (?k0 + j)
      else residual_of b c (equation_rows c ! j) = Inr (r ! (?k0 + j))"
    by blast
  then show ?thesis
    using bound old c' guarded_iff [of "equation_rows c ! j"] by simp
qed

lemma demo_iteration_facts:
  "snd (equations demo_base demo_iteration) = None"
  "equation_rows demo_iteration ! 5 = EnergyBalance"
  "equation_rows demo_iteration ! 10 = LambTarget"
  "5 < length (equation_rows demo_iteration)"
  "10 < length (equation_rows demo_iteration)"
  "num_nw_fluids demo_iteration = 5"
  "\<not> recompute demo_base demo_iteration 0"
  "residual demo_iteration ! 20 = 0"
  "residual demo_iteration ! 25 = 0"
  "lambda_func demo_base demo_iteration = Inr 1"
  by code_simp+

text \<open>
  C5 (as stated) counts the equation of \<^verbatim>\<open>lamb\<close> among the guarded ones. In the fifth
  iteration, with a stored residual of zero and \<^verbatim>\<open>always_all_equations\<close> off, none
  of the three conditions holds, and the call still replaces the stored residual of that
  row.
\<close>

theorem equations_selective_counterexample:
  "equation_rows demo_iteration ! 10 = LambTarget \<and>
   \<not> recompute demo_base demo_iteration (residual demo_iteration ! 25) \<and>
   snd (equations demo_base demo_iteration) = None \<and>
   residual (fst (equations demo_base demo_iteration)) ! 25 \<noteq> residual demo_iteration ! 25"
  by code_simp

theorem equations_selective_witness:
  "snd (equations demo_base demo_iteration) = None \<and>
   residual (fst (equations demo_base demo_iteration)) ! 20 = 0 \<and>
   residual (fst (equations demo_base demo_iteration)) ! 25 = 1"
proof -
  have eq: "equations demo_base demo_iteration = (fst (equations demo_base demo_iteration), None)"
    using demo_iteration_facts(1) by (metis prod.collapse)
  show ?thesis
    using equations_selective [OF eq demo_iteration_facts(4)]
      equations_selective [OF eq demo_iteration_facts(5)]
    by (simp add: demo_iteration_facts)
qed

subsection \<open>The rows that the derivatives assign\<close>

text \<open>
  An assignment to the row \<open>k\<close> that succeeds keeps the shape of the array and every
  cell of every other row; one that raises keeps the array. So a sequence of assignments
  to rows from \<open>k0\<close> on keeps the rows below \<open>k0\<close>, also when it ends in an exception.
\<close>

lemma setcell_frame:
  assumes "setcell k i j v a = Inr a'"
  shows "shape a' = shape a" and "\<And>r x y. r \<noteq> k \<Longrightarrow> cells a' r x y = cells a r x y"
  using assms
  by (auto simp: setcell_def Let_def split: prod.splits if_splits ndval.splits)

lemma settail_frame:
  assumes "settail k i v a = Inr a'"
  shows "shape a' = shape a" and "\<And>r x y. r \<noteq> k \<Longrightarrow> cells a' r x y = cells a r x y"
  using assms
  by (auto simp: settail_def Let_def split: prod.splits if_splits ndval.splits)

lemma apply_assign_frame:
  assumes "in_row k w" and "apply_assign w a = Inr a'"
  shows "shape a' = shape a \<and> (\<forall>r x y. r \<noteq> k \<longrightarrow> cells a' r x y = cells a r x y)"
  using assms by (cases w) (auto dest: setcell_frame settail_frame)

lemma run_assigns_frame:
  assumes "list_all (\<lambda>w. \<exists>k\<ge>k0. in_row k w) ws"
  shows "shape (fst (run_assigns ws a)) = shape a \<and>
     (\<forall>r x y. r < k0 \<longrightarrow> cells (fst (run_assigns ws a)) r x y = cells a r x y)"
  using assms
proof (induction ws arbitrary: a)
  case Nil
  then show ?case by simp
next
  case (Cons w ws)
  show ?case
  proof (cases "apply_assign w a")
    case (Inl e)
    then show ?thesis by simp
  next
    case (Inr a')
    from Cons.prems obtain k where k: "k0 \<le> k" "in_row k w" by auto
    from apply_assign_frame [OF k(2) Inr]
    have f: "shape a' = shape a" "\<And>r x y. r < k0 \<Longrightarrow> cells a' r x y = cells a r x y"
      using k(1) by auto
    from Cons.prems have "list_all (\<lambda>w. \<exists>k\<ge>k0. in_row k w) ws" by simp
    from Cons.IH [OF this, of a'] show ?thesis
      using Inr f by simp
  qed
qed

lemma mass_and_fluid_rows: "list_all (in_row k) (mass_and_fluid b c inc f k i)"
  by (simp add: mass_and_fluid_def)

lemma variable_rows:
  "list_all (in_row k) (variable_P b c f k)" "list_all (in_row k) (variable_Qloss b c f k)"
  by (simp_all add: variable_P_def variable_Qloss_def)

lemma block_rows:
  "list_all (in_row k) (reaction_block b c inc fluid k)"
  "list_all (in_row k) (energy_block b c inc k)"
  "list_all (in_row k) (tiP_char_block b c inc k)"
  "list_all (in_row k) (Q_char_block b c inc f loop k)"
  "list_all (in_row k) (Qloss_char_block b c inc k)"
  "list_all (in_row k) (lamb_block b c inc k)"
  "list_all (in_row k) (ti_block b c k)"
  "list_all (in_row k) (Q_block c loop k)"
  "list_all (in_row k) (pr_block pr loop k)"
  "list_all (in_row k) (zeta_block b c inc zeta loop k)"
  by (auto simp: reaction_block_def energy_block_def tiP_char_block_def Q_char_block_def
      Qloss_char_block_def lamb_block_def ti_block_def Q_block_def pr_block_def
      zeta_block_def Let_def list_all_iff mass_and_fluid_def variable_P_def
      variable_Qloss_def split: sum.splits prod.splits if_splits)

lemma derivative_blocks_rows:
  assumes "block \<in> set (derivative_blocks b c inc)"
  shows "list_all (in_row k) (block k)"
  using assms unfolding derivative_blocks_def
  by (auto simp: block_rows split: if_splits)

lemma derivative_assigns_rows:
  "list_all (\<lambda>w. \<exists>k\<ge>num_nw_fluids c * 2 + 5. in_row k w) (derivative_assigns b c inc)"
proof -
  have "\<exists>k\<ge>num_nw_fluids c * 2 + 5. in_row k w"
    if "(k, block) \<in> set (enumerate (num_nw_fluids c * 2 + 5) (derivative_blocks b c inc))"
      "w \<in> set (block k)" for k block w
  proof -
    from that(1) have "num_nw_fluids c * 2 + 5 \<le> k" "block \<in> set (derivative_blocks b c inc)"
      by (auto simp: in_set_enumerate_eq)
    with derivative_blocks_rows [of block b c inc k] that(2) show ?thesis
      by (auto simp: list_all_iff)
  qed
  then show ?thesis
    unfolding derivative_assigns_def list_all_iff by auto
qed

lemma derivatives_frame:
  "shape (fst (derivatives b c inc)) = shape (jacobian c) \<and>
   (\<forall>k i j. k < num_nw_fluids c * 2 + 5 \<longrightarrow>
      cells (fst (derivatives b c inc)) k i j = cells (jacobian c) k i j)"
  unfolding derivatives_def
  using run_assigns_frame [OF derivative_assigns_rows [of c b inc], of "jacobian c"] by simp

lemma iterations_frame:
  assumes "list_all (\<lambda>(c, inc). num_nw_fluids c = F) calls" and "k < 2 * F + 5"
  shows "cells (iterations b calls a) k i j = cells a k i j"
  using assms(1) unfolding iterations_def
proof (induction calls arbitrary: a)
  case Nil
  then show ?case by simp
next
  case (Cons call calls)
  obtain c inc where call: "call = (c, inc)" by (cases call)
  with Cons.prems have F: "num_nw_fluids c = F" and rest: "list_all (\<lambda>(c, inc). num_nw_fluids c = F) calls"
    by simp_all
  have "cells (fst (derivatives b (c\<lparr>jacobian := a\<rparr>) inc)) k i j = cells a k i j"
    using derivatives_frame [of b "c\<lparr>jacobian := a\<rparr>" inc] F assms(2) by (simp add: mult.commute)
  then show ?case
    using Cons.IH [OF rest] by (simp add: call)
qed

lemma demo_calls_fluids:
  "list_all (\<lambda>(c, inc). num_nw_fluids c = length (fluids demo_network)) demo_calls"
  by (simp add: demo_calls_def demo_values demo_iteration_facts)

subsection \<open>C7: the constant rows of the Jacobian\<close>

text \<open>
  C7: a call of \<^verbatim>\<open>derivatives\<close>, with any filter and any state of the engine, leaves
  every cell of the rows below \<^verbatim>\<open>num_nw_fluids * 2 + 5\<close> as it found it, also when
  it raises. Hence after \<^verbatim>\<open>comp_init\<close> and any number of calls, on engines with the
  fluids of the network, the rows \<open>0\<close> to \<open>2 * F + 4\<close> hold what \<^verbatim>\<open>fluid_deriv\<close>,
  \<^verbatim>\<open>mass_flow_deriv\<close> and \<^verbatim>\<open>pressure_deriv\<close> returned at the initialisation.
\<close>

theorem derivatives_constant_rows:
  assumes "ports_ok c0"
    and "list_all (\<lambda>(c, inc). num_nw_fluids c = length (fluids nw)) calls"
  shows "(\<forall>k i j. k < num_nw_fluids c * 2 + 5 \<longrightarrow>
            cells (fst (derivatives b c inc)) k i j = cells (jacobian c) k i j) \<and>
     (\<exists>c1 dF dM dP. comp_init rp nw c0 = Inr c1 \<and>
        fluid_deriv c1 = Inr dF \<and> mass_flow_deriv c1 = Inr dM \<and> pressure_deriv c1 = Inr dP \<and>
        (\<forall>k i j. k < 2 * length (fluids nw) + 5 \<longrightarrow>
           cells (iterations b calls (jacobian c1)) k i j =
             (if k < 2 * length (fluids nw) then cells dF k i j
              else if k < 2 * length (fluids nw) + 3 then cells dM (k - 2 * length (fluids nw)) i j
              else cells dP (k - (2 * length (fluids nw) + 3)) i j)))"
proof -
  from comp_init_fields [OF assms(1), of rp nw]
  obtain c1 dF dM dP where c1: "comp_init rp nw c0 = Inr c1"
    "fluid_deriv c1 = Inr dF" "mass_flow_deriv c1 = Inr dM" "pressure_deriv c1 = Inr dP"
    "jacobian c1 = blocks (length (fluids nw)) dF dM dP
        (zeros3 (num_eq c1, 7 + num_vars c1, length (fluids nw) + 3))"
    by blast
  have "cells (iterations b calls (jacobian c1)) k i j =
      (if k < 2 * length (fluids nw) then cells dF k i j
       else if k < 2 * length (fluids nw) + 3 then cells dM (k - 2 * length (fluids nw)) i j
       else cells dP (k - (2 * length (fluids nw) + 3)) i j)"
    if "k < 2 * length (fluids nw) + 5" for k i j
  proof -
    have "cells (iterations b calls (jacobian c1)) k i j = cells (jacobian c1) k i j"
      by (rule iterations_frame [OF assms(2) that])
    also have "\<dots> = (if k < 2 * length (fluids nw) then cells dF k i j
       else if k < 2 * length (fluids nw) + 3 then cells dM (k - 2 * length (fluids nw)) i j
       else cells dP (k - (2 * length (fluids nw) + 3)) i j)"
      using that unfolding c1(5) by (simp add: blocks_def)
    finally show ?thesis .
  qed
  with c1(1-4) derivatives_frame [of b c inc] show ?thesis
    by blast
qed

theorem derivatives_constant_rows_witness:
  "ports_ok demo_engine \<and>
   list_all (\<lambda>(c, inc). num_nw_fluids c = length (fluids demo_network)) demo_calls \<and>
   cells (fst (derivatives demo_base demo_iteration (\<lambda>i j. False))) 14 2 0 =
     cells (jacobian demo_iteration) 14 2 0 \<and>
   (\<exists>c1 dF dM dP. comp_init demo_reaction demo_network demo_engine = Inr c1 \<and>
      fluid_deriv c1 = Inr dF \<and> mass_flow_deriv c1 = Inr dM \<and> pressure_deriv c1 = Inr dP \<and>
      cells (iterations demo_base demo_calls (jacobian c1)) 0 0 3 = cells dF 0 0 3 \<and>
      cells (iterations demo_base demo_calls (jacobian c1)) 11 2 0 = cells dM 1 2 0 \<and>
      cells (iterations demo_base demo_calls (jacobian c1)) 14 3 1 = cells dP 1 3 1)"
proof -
  note t = derivatives_constant_rows [OF demo_ports_ok demo_calls_fluids,
      of demo_iteration demo_base "\<lambda>i j. False" demo_reaction]
  from t have a: "cells (fst (derivatives demo_base demo_iteration (\<lambda>i j. False))) 14 2 0 =
     cells (jacobian demo_iteration) 14 2 0"
    by (simp add: demo_iteration_facts)
  from t obtain c1 dF dM dP where c1: "comp_init demo_reaction demo_network demo_engine = Inr c1"
    "fluid_deriv c1 = Inr dF" "mass_flow_deriv c1 = Inr dM" "pressure_deriv c1 = Inr dP"
    and r: "\<forall>k i j. k < 2 * length (fluids demo_network) + 5 \<longrightarrow>
           cells (iterations demo_base demo_calls (jacobian c1)) k i j =
             (if k < 2 * length (fluids demo_network) then cells dF k i j
              else if k < 2 * length (fluids demo_network) + 3
                then cells dM (k - 2 * length (fluids demo_network)) i j
              else cells dP (k - (2 * length (fluids demo_network) + 3)) i j)"
    by blast
  have "cells (iterations demo_base demo_calls (jacobian c1)) 0 0 3 = cells dF 0 0 3"
    "cells (iterations demo_base demo_calls (jacobian c1)) 11 2 0 = cells dM 1 2 0"
    "cells (iterations demo_base demo_calls (jacobian c1)) 14 3 1 = cells dP 1 3 1"
    using r [rule_format, of 0 0 3] r [rule_format, of 11 2 0] r [rule_format, of 14 3 1]
    by (simp_all add: demo_values)
  with a c1 demo_ports_ok demo_calls_fluids show ?thesis
    by blast
qed

end
